theory Spec2Isabelle
  imports Complex_Main
begin

section \<open>Data model of the document index\<close>

text \<open>
  A chunk is the dictionary built by \<open>extract_text_from_pdf\<close>, with the keys
  \<open>text\<close>, \<open>page\<close>, \<open>chunk_id\<close> and \<open>document\<close>. Python strings are modelled as
  \<open>string\<close>; page numbers and chunk ids count up from 1 and 0 and are naturals.
\<close>

record chunk =
  chunk_text :: string
  page :: nat
  chunk_id :: nat
  document :: string

text \<open>
  An embedding is a vector of floats. Float arithmetic is idealised as arithmetic on the
  reals: rounding, overflow and underflow of the 32-bit floats are not modelled, and
  there is no infinity. The one place where the cosine formula leaves the reals on exact
  arithmetic, the division \<open>0 / 0\<close> for a zero vector, is written out: its value is
  \<open>NaN\<close>. The theorems below that speak of a zero norm speak of a vector of zeros.
\<close>

type_synonym vec = "real list"

datatype sim = Fin real | NaN

text \<open>
  A search result is \<open>{**chunk, 'similarity': ..., 'chunk_index': ...}\<close>: the chunk's
  fields plus two more.
\<close>

record result = chunk +
  similarity :: sim
  chunk_index :: nat

text \<open>
  The state of a \<open>DocumentIndex\<close> object. \<open>embeddings\<close> is \<open>None\<close> until the first
  document is added, then a two-dimensional array, one row per chunk.
  \<open>document_map\<close> is a \<open>defaultdict(list)\<close>: a missing key reads as the empty list.
\<close>

record DocumentIndex =
  chunks :: "chunk list"
  embeddings :: "vec list option"
  document_map :: "string \<Rightarrow> nat list"

datatype error = ValueError | IndexError | TypeError

section \<open>Sorting as numpy does\<close>

text \<open>
  \<open>np.argsort\<close> orders floats ascending and puts NaN after every number. This is the
  order used for sorting only; Python's comparison operators treat NaN differently
  (see \<open>meets_threshold\<close> below).
\<close>

instantiation sim :: linorder
begin

fun less_eq_sim :: "sim \<Rightarrow> sim \<Rightarrow> bool" where
  "less_eq_sim _ NaN = True"
| "less_eq_sim NaN (Fin _) = False"
| "less_eq_sim (Fin a) (Fin b) = (a \<le> b)"

definition less_sim :: "sim \<Rightarrow> sim \<Rightarrow> bool" where
  "less_sim x y = (x \<le> y \<and> \<not> y \<le> x)"

instance
proof
  fix x y z :: sim
  show "(x < y) = (x \<le> y \<and> \<not> y \<le> x)"
    by (simp add: less_sim_def)
  show "x \<le> x"
    by (cases x) simp_all
  show "x \<le> y \<Longrightarrow> y \<le> z \<Longrightarrow> x \<le> z"
    by (cases x; cases y; cases z) simp_all
  show "x \<le> y \<Longrightarrow> y \<le> x \<Longrightarrow> x = y"
    by (cases x; cases y) simp_all
  show "x \<le> y \<or> y \<le> x"
    by (cases x; cases y) auto
qed

end

text \<open>
  \<open>np.argsort(a)\<close>: the indices of \<open>a\<close> in ascending order of their values. numpy's
  default sort is not stable and leaves the order of equal values open; the model fixes
  one such order, that of an insertion sort, which keeps equal values in index order.
  No theorem about all inputs below depends on that choice, and the examples use
  similarities without ties, except the example that shows what a tie can do.
\<close>

definition argsort :: "sim list \<Rightarrow> nat list" where
  "argsort a = sort_key (\<lambda>i. a ! i) [0..<length a]"

text \<open>The slice \<open>xs[:k]\<close> for a Python integer \<open>k\<close>: a negative \<open>k\<close> counts from the end.\<close>

definition slice_to :: "int \<Rightarrow> 'a list \<Rightarrow> 'a list" where
  "slice_to k xs = (if 0 \<le> k then take (nat k) xs else take (length xs - nat (- k)) xs)"

section \<open>Cosine similarity\<close>

definition dot :: "vec \<Rightarrow> vec \<Rightarrow> real" where
  "dot u v = sum_list (map2 (*) u v)"

definition vec_norm :: "vec \<Rightarrow> real" where
  "vec_norm v = sqrt (sum_list (map (\<lambda>x. x * x) v))"

text \<open>
  Float division as numpy performs it elementwise: dividing by zero raises nothing. A zero
  divisor only arises here from a zero vector, whose dot product is zero as well
  (lemma \<open>dot_zero_norm\<close>), so the quotient is \<open>0 / 0\<close>.
\<close>

definition np_divide :: "real \<Rightarrow> real \<Rightarrow> sim" where
  "np_divide a b = (if b = 0 then NaN else Fin (a / b))"

text \<open>
  \<open>np.dot(self.embeddings, query_embedding) / (np.linalg.norm(self.embeddings, axis=1)
  * np.linalg.norm(query_embedding))\<close>. \<open>np.dot\<close> raises \<open>ValueError\<close> when the rows of
  the matrix and the query vector differ in length.
\<close>

definition cosine_similarities :: "vec list \<Rightarrow> vec \<Rightarrow> error + sim list" where
  "cosine_similarities E q =
     (if list_ex (\<lambda>row. length row \<noteq> length q) E then Inl ValueError
      else Inr (map (\<lambda>row. np_divide (dot row q) (vec_norm row * vec_norm q)) E))"

section \<open>DocumentIndex.search\<close>

definition build_result :: "chunk list \<Rightarrow> sim list \<Rightarrow> nat \<Rightarrow> result" where
  "build_result cs similarities idx =
     chunk.extend (cs ! idx) (result.fields (similarities ! idx) idx)"

text \<open>
  The search method. \<open>encode\<close> is the embedding model, a function from text to vectors.
  \<open>allowed_documents\<close> is \<open>None\<close> or a set of document names. Reading \<open>similarities[idx]\<close>
  or \<open>self.chunks[idx]\<close> out of range raises \<open>IndexError\<close>; the model checks the range
  before every such read.
\<close>

definition search ::
  "(string \<Rightarrow> vec) \<Rightarrow> DocumentIndex \<Rightarrow> string \<Rightarrow> int \<Rightarrow> string set option
     \<Rightarrow> error + result list" where
  "search encode self query top_k allowed_documents =
     (case embeddings self of
        None \<Rightarrow> Inr []
      | Some E \<Rightarrow>
          if chunks self = [] then Inr []
          else if allowed_documents = Some {} then Inr []
          else
            (case cosine_similarities E (encode query) of
               Inl e \<Rightarrow> Inl e
             | Inr similarities \<Rightarrow>
                 (case allowed_documents of
                    Some allowed \<Rightarrow>
                      (let filtered_indices =
                             filter (\<lambda>idx. document (chunks self ! idx) \<in> allowed)
                               [0..<length (chunks self)]
                       in if list_ex (\<lambda>idx. length similarities \<le> idx) filtered_indices
                          then Inl IndexError
                          else if filtered_indices = [] then Inr []
                          else
                            (let filtered_similarities =
                                   map (\<lambda>idx. similarities ! idx) filtered_indices;
                                 top_indices =
                                   map (\<lambda>j. filtered_indices ! j)
                                     (slice_to top_k (rev (argsort filtered_similarities)))
                             in Inr (map (build_result (chunks self) similarities) top_indices)))
                  | None \<Rightarrow>
                      (let top_indices = slice_to top_k (rev (argsort similarities))
                       in if list_ex (\<lambda>idx. length (chunks self) \<le> idx) top_indices
                          then Inl IndexError
                          else Inr (map (build_result (chunks self) similarities) top_indices)))))"

section \<open>Access control\<close>

text \<open>The table \<open>USER_DOCUMENT_ACCESS\<close>, a dictionary from user email to document names.\<close>

definition USER_DOCUMENT_ACCESS :: "(string \<times> string list) list" where
  "USER_DOCUMENT_ACCESS =
     [(''alice@email.com'', [''company_a_earnings.pdf'']),
      (''bob@email.com'', [''company_b_earnings.pdf'', ''company_c_earnings.pdf'']),
      (''charlie@email.com'', [''company_d_earnings.pdf'', ''company_e_earnings.pdf'']),
      (''aakash@email.com'', [''company_a_earnings.pdf'']),
      (''test1@email.com'', [''company_b_earnings.pdf'', ''company_c_earnings.pdf'']),
      (''test2@email.com'', [''company_a_earnings.pdf'', ''company_b_earnings.pdf''])]"

definition get_user_documents :: "string \<Rightarrow> string list" where
  "get_user_documents user_email =
     (case map_of USER_DOCUMENT_ACCESS user_email of None \<Rightarrow> [] | Some docs \<Rightarrow> docs)"

definition can_access_document :: "string \<Rightarrow> string \<Rightarrow> bool" where
  "can_access_document user_email document_name =
     (document_name \<in> set (get_user_documents user_email))"

definition get_allowed_documents_set :: "string \<Rightarrow> string set" where
  "get_allowed_documents_set user_email = set (get_user_documents user_email)"

section \<open>String operations\<close>

text \<open>\<open>sep.join(parts)\<close>.\<close>

fun join :: "string \<Rightarrow> string list \<Rightarrow> string" where
  "join sep [] = []"
| "join sep [x] = x"
| "join sep (x # y # ys) = x @ sep @ join sep (y # ys)"

fun is_prefix :: "string \<Rightarrow> string \<Rightarrow> bool" where
  "is_prefix [] s = True"
| "is_prefix (x # xs) [] = False"
| "is_prefix (x # xs) (y # ys) = (x = y \<and> is_prefix xs ys)"

text \<open>\<open>sub in s\<close> for strings: \<open>sub\<close> occurs in \<open>s\<close> as a contiguous substring.\<close>

fun str_contains :: "string \<Rightarrow> string \<Rightarrow> bool" where
  "str_contains sub [] = (sub = [])"
| "str_contains sub (c # s) = (is_prefix sub (c # s) \<or> str_contains sub s)"

text \<open>
  \<open>s.replace(old, new)\<close> for a non-empty \<open>old\<close>, scanning from the left; the counter is the
  number of characters of a match still to be skipped.
\<close>

fun replace_from :: "string \<Rightarrow> string \<Rightarrow> nat \<Rightarrow> string \<Rightarrow> string" where
  "replace_from old new k [] = []"
| "replace_from old new (Suc k) (c # s) = replace_from old new k s"
| "replace_from old new 0 (c # s) =
     (if is_prefix old (c # s) then new @ replace_from old new (length old - 1) s
      else c # replace_from old new 0 s)"

definition replace :: "string \<Rightarrow> string \<Rightarrow> string \<Rightarrow> string" where
  "replace old new s = replace_from old new 0 s"

text \<open>
  \<open>str.lower\<close> on the characters a \<open>char\<close> can hold (Latin-1): the letters A to Z and the
  accented capitals move up by 32. \<open>str.upper\<close> is only applied to the ASCII keys of
  the company table, and is modelled on ASCII.
\<close>

definition lower_char :: "char \<Rightarrow> char" where
  "lower_char c =
     (let n = (of_char c :: nat)
      in if (65 \<le> n \<and> n \<le> 90) \<or> (192 \<le> n \<and> n \<le> 222 \<and> n \<noteq> 215)
         then char_of (n + 32) else c)"

definition lower :: "string \<Rightarrow> string" where
  "lower s = map lower_char s"

definition upper_char :: "char \<Rightarrow> char" where
  "upper_char c =
     (let n = (of_char c :: nat)
      in if 97 \<le> n \<and> n \<le> 122 then char_of (n - 32) else c)"

definition upper :: "string \<Rightarrow> string" where
  "upper s = map upper_char s"

definition newline :: string where
  "newline = [CHR 0x0A]"

section \<open>ConversationManager\<close>

text \<open>A history entry \<open>{'query': ..., 'answer': ..., 'context': ...}\<close>.\<close>

record turn =
  turn_query :: string
  turn_answer :: string
  turn_context :: string

record ConversationManager =
  conversations :: "string \<rightharpoonup> turn list"

definition get_conversation_history :: "ConversationManager \<Rightarrow> string \<Rightarrow> turn list" where
  "get_conversation_history self user_email =
     (case conversations self user_email of None \<Rightarrow> [] | Some h \<Rightarrow> h)"

definition add_to_conversation ::
  "ConversationManager \<Rightarrow> string \<Rightarrow> string \<Rightarrow> string \<Rightarrow> string \<Rightarrow> ConversationManager" where
  "add_to_conversation self user_email query answer context =
     (let self1 = (if user_email \<notin> dom (conversations self)
                   then self\<lparr>conversations := (conversations self)(user_email \<mapsto> [])\<rparr>
                   else self)
      in self1\<lparr>conversations := (conversations self1)(user_email \<mapsto>
           the (conversations self1 user_email) @
             [\<lparr>turn_query = query, turn_answer = answer, turn_context = context\<rparr>])\<rparr>)"

definition clear_conversation :: "ConversationManager \<Rightarrow> string \<Rightarrow> ConversationManager" where
  "clear_conversation self user_email =
     (if user_email \<in> dom (conversations self)
      then self\<lparr>conversations := (conversations self)(user_email \<mapsto> [])\<rparr>
      else self)"

text \<open>The slice \<open>xs[-n:]\<close> for a Python integer \<open>n\<close>.\<close>

definition slice_last :: "int \<Rightarrow> 'a list \<Rightarrow> 'a list" where
  "slice_last n xs =
     (if 0 < n then drop (length xs - nat n) xs
      else if n = 0 then xs
      else drop (nat (- n)) xs)"

definition build_context_string :: "ConversationManager \<Rightarrow> string \<Rightarrow> int \<Rightarrow> string" where
  "build_context_string self user_email max_entries =
     (let history = get_conversation_history self user_email
      in if history = [] then []
         else
           (let recent = slice_last max_entries history;
                context_parts =
                  concat (map (\<lambda>entry.
                    [''Previous question: '' @ turn_query entry,
                     ''Previous answer: '' @ take 200 (turn_answer entry) @ ''...'']) recent)
            in join newline context_parts))"

section \<open>ConversationalQA.answer_query\<close>

record source =
  src_document :: string
  src_page :: nat
  src_similarity :: string

record response =
  answer :: string
  sources :: "source list"
  context_used :: bool

record ConversationalQA =
  document_index :: DocumentIndex
  conversation_manager :: ConversationManager

text \<open>The dictionary \<open>company_mapping\<close> as first written, in insertion order.\<close>

definition company_mapping_initial :: "(string \<times> string) list" where
  "company_mapping_initial =
     [(''company_a'', ''company_a_earnings.pdf''),
      (''company_b'', ''company_b_earnings.pdf''),
      (''company_c'', ''company_c_earnings.pdf''),
      (''company_d'', ''company_d_earnings.pdf''),
      (''company_e'', ''company_e_earnings.pdf''),
      (''company a'', ''company_a_earnings.pdf''),
      (''company b'', ''company_b_earnings.pdf''),
      (''company c'', ''company_c_earnings.pdf''),
      (''company d'', ''company_d_earnings.pdf''),
      (''company e'', ''company_e_earnings.pdf'')]"

text \<open>\<open>d[k] = v\<close> on an insertion-ordered dictionary.\<close>

fun dict_set :: "(string \<times> string) list \<Rightarrow> string \<Rightarrow> string \<Rightarrow> (string \<times> string) list" where
  "dict_set [] k v = [(k, v)]"
| "dict_set ((k', v') # d) k v = (if k' = k then (k, v) # d else (k', v') # dict_set d k v)"

text \<open>The loop over the five document names that may add filename stems to the mapping.\<close>

definition add_filename_patterns ::
  "string \<Rightarrow> (string \<times> string) list \<Rightarrow> (string \<times> string) list" where
  "add_filename_patterns query_lower company_mapping =
     foldl (\<lambda>m doc_name.
              (let doc_base = replace ''.pdf'' [] (replace ''_earnings.pdf'' [] doc_name)
               in if str_contains doc_base query_lower \<and> doc_name \<notin> set (map snd m)
                  then dict_set m doc_base doc_name else m))
       company_mapping
       [''company_a_earnings.pdf'', ''company_b_earnings.pdf'', ''company_c_earnings.pdf'',
        ''company_d_earnings.pdf'', ''company_e_earnings.pdf'']"

definition mentioned_companies :: "string \<Rightarrow> (string \<times> string) list" where
  "mentioned_companies query =
     (let query_lower = lower query;
          company_mapping = add_filename_patterns query_lower company_mapping_initial
      in filter (\<lambda>(company_name, doc_name). str_contains company_name query_lower)
           company_mapping)"

definition unauthorized_mentions :: "string set \<Rightarrow> string \<Rightarrow> string list" where
  "unauthorized_mentions allowed_docs query =
     map (\<lambda>(company_name, doc_name). upper company_name)
       (filter (\<lambda>(company_name, doc_name). doc_name \<notin> allowed_docs)
          (mentioned_companies query))"

definition refusal_answer :: "string list \<Rightarrow> string list \<Rightarrow> string" where
  "refusal_answer mentions allowed_listing =
     ''I don't have access to information about '' @ join '', '' mentions
       @ ''. I can only search within the documents you have access to: ''
       @ join '', '' allowed_listing
       @ ''. Please ask questions about the companies I have access to.''"

definition MIN_SIMILARITY_THRESHOLD :: real where
  "MIN_SIMILARITY_THRESHOLD = 0.40"

text \<open>\<open>similarity >= MIN_SIMILARITY_THRESHOLD\<close>; a Python comparison with NaN is false.\<close>

definition meets_threshold :: "sim \<Rightarrow> bool" where
  "meets_threshold s = (case s of Fin x \<Rightarrow> MIN_SIMILARITY_THRESHOLD \<le> x | NaN \<Rightarrow> False)"

text \<open>
  \<open>f"{x:.2f}"\<close>: the number rounded to two decimals (a tie goes to the even
  neighbour), with a minus sign for a negative number, and the decimal digits of the
  integer part as \<open>str\<close> writes them. NaN prints as \<open>nan\<close>.
\<close>

definition digit_char :: "nat \<Rightarrow> char" where
  "digit_char d = ''0123456789'' ! d"

fun str_nat :: "nat \<Rightarrow> string" where
  "str_nat n =
     (if n < 10 then [digit_char n] else str_nat (n div 10) @ [digit_char (n mod 10)])"

declare str_nat.simps [simp del]

definition round_half_even :: "real \<Rightarrow> int" where
  "round_half_even x =
     (let n = \<lfloor>x\<rfloor>; f = x - of_int n
      in if f < 1 / 2 then n else if 1 / 2 < f then n + 1
         else if even n then n else n + 1)"

definition format_2f :: "real \<Rightarrow> string" where
  "format_2f x =
     (let h = nat (round_half_even (\<bar>x\<bar> * 100))
      in (if x < 0 then ''-'' else []) @ str_nat (h div 100) @ ''.''
           @ [digit_char (h mod 100 div 10), digit_char (h mod 10)])"

definition format_similarity :: "sim \<Rightarrow> string" where
  "format_similarity s = (case s of Fin x \<Rightarrow> format_2f x | NaN \<Rightarrow> ''nan'')"

definition threshold_answer :: "string list \<Rightarrow> string" where
  "threshold_answer allowed_listing =
     ''I couldn't find highly relevant information in the documents you have access to (''
       @ join '', '' allowed_listing
       @ ''). The search results didn't meet the relevance threshold (minimum similarity: ''
       @ format_2f MIN_SIMILARITY_THRESHOLD
       @ ''). Please try rephrasing your question or asking about topics that might be in your accessible documents.''"

definition no_results_answer :: string where
  "no_results_answer =
     ''I couldn't find relevant information in the documents you have access to. Please try rephrasing your question.''"

definition source_of :: "result \<Rightarrow> source" where
  "source_of r =
     \<lparr>src_document = document r, src_page = page r,
      src_similarity = format_similarity (similarity r)\<rparr>"

text \<open>
  The block \<open>if search_results: ... else: ...\<close> that builds \<open>answer\<close> and \<open>sources\<close>. The
  warning printed for a result outside the allowed set goes to the log only.
\<close>

definition build_answer ::
  "string list \<Rightarrow> string set \<Rightarrow> result list \<Rightarrow> string \<times> source list" where
  "build_answer allowed_listing allowed_docs search_results =
     (if search_results \<noteq> [] then
        (let filtered_results = filter (\<lambda>r. document r \<in> allowed_docs) search_results;
             high_similarity_results =
               filter (\<lambda>r. meets_threshold (similarity r)) filtered_results
         in if high_similarity_results \<noteq> [] then
              (let used = take 3 high_similarity_results;
                   answer_parts = map chunk_text used;
                   srcs = map source_of used;
                   ans = join (newline @ newline) answer_parts
               in (if 1000 < length ans then take 1000 ans @ ''...'' else ans, srcs))
            else (threshold_answer allowed_listing, []))
      else (no_results_answer, []))"

text \<open>
  The block that builds \<open>enhanced_query\<close> and sets \<open>context_used\<close> from the recent
  history.
\<close>

definition fuse_context :: "ConversationManager \<Rightarrow> string \<Rightarrow> string \<Rightarrow> bool \<Rightarrow> string \<times> bool" where
  "fuse_context cm user_email query use_context =
     (if use_context then
        (let context_string = build_context_string cm user_email 3
         in if context_string \<noteq> []
            then (query @ newline @ newline @ ''Context from previous conversation:''
                    @ newline @ context_string, True)
            else (query, False))
      else (query, False))"

text \<open>
  The search with the enhanced query and, when it found nothing and context was used,
  the second search with the query as typed. It returns the results and the final value
  of \<open>context_used\<close>.
\<close>

definition retrieve ::
  "(string \<Rightarrow> vec) \<Rightarrow> DocumentIndex \<Rightarrow> string set \<Rightarrow> string \<Rightarrow> string \<Rightarrow> bool
     \<Rightarrow> error + (result list \<times> bool)" where
  "retrieve encode index allowed_docs query enhanced_query fused =
     (case search encode index enhanced_query 3 (Some allowed_docs) of
        Inl e \<Rightarrow> Inl e
      | Inr search_results \<Rightarrow>
          if search_results = [] \<and> fused then
            (case search encode index query 3 (Some allowed_docs) of
               Inl e \<Rightarrow> Inl e
             | Inr retry_results \<Rightarrow> Inr (retry_results, False))
          else Inr (search_results, fused))"

text \<open>
  The method itself. \<open>encode\<close> is the embedding model. \<open>set_order\<close> is the order in which
  Python iterates over a set of strings when \<open>', '.join(allowed_docs)\<close> is built: the
  language leaves it open and it changes with the hash seed of the process, so it is a
  parameter, of which the theorems assume only that it lists the elements of the set.
  The method returns the response and the object's new state, or the error a search
  raised.
\<close>

definition answer_query ::
  "(string \<Rightarrow> vec) \<Rightarrow> (string set \<Rightarrow> string list) \<Rightarrow> ConversationalQA \<Rightarrow> string
     \<Rightarrow> string \<Rightarrow> bool \<Rightarrow> error + (response \<times> ConversationalQA)" where
  "answer_query encode set_order self user_email query use_context =
     (let allowed_docs = get_allowed_documents_set user_email;
          allowed_listing = set_order allowed_docs;
          mentions = unauthorized_mentions allowed_docs query
      in if mentioned_companies query \<noteq> [] \<and> mentions \<noteq> [] then
           Inr (\<lparr>answer = refusal_answer mentions allowed_listing,
                  sources = [], context_used = False\<rparr>, self)
         else
           (let (enhanced_query, fused) =
                  fuse_context (conversation_manager self) user_email query use_context
            in case retrieve encode (document_index self) allowed_docs query
                      enhanced_query fused of
                 Inl e \<Rightarrow> Inl e
               | Inr (search_results, final_context_used) \<Rightarrow>
                   (let (ans, srcs) =
                          build_answer allowed_listing allowed_docs search_results;
                        cm = add_to_conversation (conversation_manager self)
                               user_email query ans
                               (join ''; '' (map src_document srcs))
                    in Inr (\<lparr>answer = ans, sources = srcs,
                              context_used = final_context_used\<rparr>,
                            self\<lparr>conversation_manager := cm\<rparr>))))"

definition clear_user_conversation :: "ConversationalQA \<Rightarrow> string \<Rightarrow> ConversationalQA" where
  "clear_user_conversation self user_email =
     self\<lparr>conversation_manager := clear_conversation (conversation_manager self) user_email\<rparr>"

section \<open>The search method as a call on the process state\<close>

text \<open>
  What a call of \<open>search\<close> can read and write: the index object and the module's global
  \<open>_embedding_model\<close>, which is \<open>None\<close> until the model is first asked for.
\<close>

record world =
  index_object :: DocumentIndex
  embedding_model :: "(string \<Rightarrow> vec) option"

text \<open>
  \<open>get_embedding_model\<close>: loads the model on first use and keeps it in the global.
  \<open>pretrained\<close> is the model that \<open>SentenceTransformer('all-MiniLM-L6-v2')\<close> builds.
\<close>

definition get_embedding_model ::
  "(string \<Rightarrow> vec) \<Rightarrow> world \<Rightarrow> (string \<Rightarrow> vec) \<times> world" where
  "get_embedding_model pretrained w =
     (case embedding_model w of
        None \<Rightarrow> (pretrained, w\<lparr>embedding_model := Some pretrained\<rparr>)
      | Some model \<Rightarrow> (model, w))"

text \<open>The reads of \<open>self.chunks\<close> and \<open>self.embeddings\<close>.\<close>

definition read_chunks :: "world \<Rightarrow> chunk list \<times> world" where
  "read_chunks w = (chunks (index_object w), w)"

definition read_embeddings :: "world \<Rightarrow> vec list option \<times> world" where
  "read_embeddings w = (embeddings (index_object w), w)"

text \<open>
  The method statement by statement, each one taking the state and handing on the state
  it leaves. The two early returns come before the model is asked for; after them the
  model is fetched, which may write the global; the attributes of \<open>self\<close> are read where
  the source reads them. \<open>np.dot\<close> on \<open>None\<close> raises \<open>TypeError\<close>.
\<close>

definition search_call ::
  "(string \<Rightarrow> vec) \<Rightarrow> string \<Rightarrow> int \<Rightarrow> string set option \<Rightarrow> world
     \<Rightarrow> (error + result list) \<times> world" where
  "search_call pretrained query top_k allowed_documents w0 =
     (let (chunks1, w1) = read_chunks w0;
          (embeddings1, w2) = read_embeddings w1
      in if chunks1 = [] \<or> embeddings1 = None then (Inr [], w2)
         else if allowed_documents = Some {} then (Inr [], w2)
         else
           (let (model, w3) = get_embedding_model pretrained w2;
                query_embedding = model query;
                (embeddings2, w4) = read_embeddings w3
            in case embeddings2 of
                 None \<Rightarrow> (Inl TypeError, w4)
               | Some E \<Rightarrow>
                   (case cosine_similarities E query_embedding of
                      Inl e \<Rightarrow> (Inl e, w4)
                    | Inr similarities \<Rightarrow>
                        (let (chunks2, w5) = read_chunks w4
                         in case allowed_documents of
                              Some allowed \<Rightarrow>
                                (let filtered_indices =
                                       filter (\<lambda>idx. document (chunks2 ! idx) \<in> allowed)
                                         [0..<length chunks2]
                                 in if list_ex (\<lambda>idx. length similarities \<le> idx)
                                         filtered_indices
                                    then (Inl IndexError, w5)
                                    else if filtered_indices = [] then (Inr [], w5)
                                    else
                                      (let filtered_similarities =
                                             map (\<lambda>idx. similarities ! idx) filtered_indices;
                                           top_indices =
                                             map (\<lambda>j. filtered_indices ! j)
                                               (slice_to top_k
                                                  (rev (argsort filtered_similarities)))
                                       in (Inr (map (build_result chunks2 similarities)
                                                  top_indices), w5)))
                            | None \<Rightarrow>
                                (let top_indices = slice_to top_k (rev (argsort similarities))
                                 in if list_ex (\<lambda>idx. length chunks2 \<le> idx) top_indices
                                    then (Inl IndexError, w5)
                                    else (Inr (map (build_result chunks2 similarities)
                                                 top_indices), w5))))))"

text \<open>The indices of the chunks that pass the filter: \<open>filtered_indices\<close> of the search.\<close>

definition allowed_indices :: "DocumentIndex \<Rightarrow> string set \<Rightarrow> nat list" where
  "allowed_indices self F =
     filter (\<lambda>idx. document (chunks self ! idx) \<in> F) [0..<length (chunks self)]"

section \<open>Example states\<close>

definition example_chunks :: "chunk list" where
  "example_chunks =
     [\<lparr>chunk_text = ''A revenue'', page = 1, chunk_id = 0,
        document = ''company_a_earnings.pdf''\<rparr>,
      \<lparr>chunk_text = ''A margin'', page = 2, chunk_id = 1,
        document = ''company_a_earnings.pdf''\<rparr>,
      \<lparr>chunk_text = ''B revenue'', page = 1, chunk_id = 0,
        document = ''company_b_earnings.pdf''\<rparr>]"

text \<open>An index with a tie: its first two chunks have the same vector.\<close>

definition example_index :: DocumentIndex where
  "example_index =
     \<lparr>chunks = example_chunks,
      embeddings = Some [[1, 0], [1, 0], [0, 1]],
      document_map = (\<lambda>d. if d = ''company_a_earnings.pdf'' then [0, 1]
                          else if d = ''company_b_earnings.pdf'' then [2] else [])\<rparr>"

definition zero_index :: DocumentIndex where
  "zero_index =
     \<lparr>chunks = [\<lparr>chunk_text = ''blank'', page = 1, chunk_id = 0,
                  document = ''company_a_earnings.pdf''\<rparr>],
      embeddings = Some [[0, 0]],
      document_map = (\<lambda>d. if d = ''company_a_earnings.pdf'' then [0] else [])\<rparr>"

definition empty_index :: DocumentIndex where
  "empty_index = \<lparr>chunks = [], embeddings = None, document_map = (\<lambda>d. [])\<rparr>"

definition example_encode :: "string \<Rightarrow> vec" where
  "example_encode q = (if q = ''costs'' then [0, 1] else [1, 0])"

text \<open>An index and a model whose similarities have no ties.\<close>

definition graded_index :: DocumentIndex where
  "graded_index =
     \<lparr>chunks = example_chunks,
      embeddings = Some [[3, 4], [4, 3], [0, 1]],
      document_map = (\<lambda>d. if d = ''company_a_earnings.pdf'' then [0, 1]
                          else if d = ''company_b_earnings.pdf'' then [2] else [])\<rparr>"

definition graded_encode :: "string \<Rightarrow> vec" where
  "graded_encode q = (if q = ''weather'' then [- 1, 0] else [1, 0])"


text \<open>Three chunks with zero vectors before one that matches the query.\<close>

definition nan_index :: DocumentIndex where
  "nan_index =
     \<lparr>chunks = [\<lparr>chunk_text = ''blank 1'', page = 1, chunk_id = 0,
                  document = ''company_a_earnings.pdf''\<rparr>,
                \<lparr>chunk_text = ''blank 2'', page = 2, chunk_id = 1,
                  document = ''company_a_earnings.pdf''\<rparr>,
                \<lparr>chunk_text = ''blank 3'', page = 3, chunk_id = 2,
                  document = ''company_a_earnings.pdf''\<rparr>,
                \<lparr>chunk_text = ''A revenue'', page = 4, chunk_id = 3,
                  document = ''company_a_earnings.pdf''\<rparr>],
      embeddings = Some [[0, 0], [0, 0], [0, 0], [1, 0]],
      document_map = (\<lambda>d. if d = ''company_a_earnings.pdf'' then [0, 1, 2, 3] else [])\<rparr>"

text \<open>One iteration order of the sets of document names: the alphabetical one.\<close>

definition example_set_order :: "string set \<Rightarrow> string list" where
  "example_set_order S =
     filter (\<lambda>d. d \<in> S)
       [''company_a_earnings.pdf'', ''company_b_earnings.pdf'', ''company_c_earnings.pdf'',
        ''company_d_earnings.pdf'', ''company_e_earnings.pdf'']"

text \<open>Another one: the reverse.\<close>

definition reverse_set_order :: "string set \<Rightarrow> string list" where
  "reverse_set_order S = rev (example_set_order S)"

definition example_world :: world where
  "example_world = \<lparr>index_object = graded_index, embedding_model = None\<rparr>"

definition example_manager :: ConversationManager where
  "example_manager =
     \<lparr>conversations =
        [''alice@email.com'' \<mapsto>
           [\<lparr>turn_query = ''revenue'', turn_answer = ''A revenue'',
              turn_context = ''company_a_earnings.pdf''\<rparr>]]\<rparr>"

definition example_qa :: ConversationalQA where
  "example_qa = \<lparr>document_index = graded_index,
                  conversation_manager = \<lparr>conversations = Map.empty\<rparr>\<rparr>"


section \<open>Facts about sorting and slicing\<close>

lemma argsort_set: "set (argsort a) = {0..<length a}"
  by (simp add: argsort_def)

lemma argsort_length: "length (argsort a) = length a"
  by (simp add: argsort_def)

lemma argsort_sorted: "sorted (map (\<lambda>i. a ! i) (argsort a))"
  by (simp add: argsort_def)

lemma ranked_desc: "sorted_wrt (\<lambda>i j. a ! j \<le> a ! i) (rev (argsort a))"
proof -
  have "sorted_wrt (\<lambda>i j. a ! i \<le> a ! j) (argsort a)"
    using argsort_sorted [of a] by (simp add: sorted_wrt_map)
  then show ?thesis
    by (simp add: sorted_wrt_rev)
qed

lemma slice_to_take: "\<exists>n. slice_to k xs = take n xs"
  by (auto simp: slice_to_def)

lemma slice_to_set: "set (slice_to k xs) \<subseteq> set xs"
  using slice_to_take [of k xs] by (auto dest: in_set_takeD)

lemma slice_to_length_nonneg: "0 \<le> k \<Longrightarrow> length (slice_to k xs) = min (nat k) (length xs)"
  by (simp add: slice_to_def)


lemma slice_to_sorted_wrt: "sorted_wrt P xs \<Longrightarrow> sorted_wrt P (slice_to k xs)"
  using slice_to_take [of k xs] by (auto simp: sorted_wrt_take)

lemma sorted_wrt_take_drop:
  assumes "sorted_wrt P xs" "a \<in> set (take n xs)" "b \<in> set (drop n xs)"
  shows "P a b"
proof -
  have "sorted_wrt P (take n xs @ drop n xs)" using assms(1) by simp
  then show ?thesis using assms(2,3) unfolding sorted_wrt_append by blast
qed

section \<open>Facts about the cosine formula\<close>

lemma sum_list_all_zero: "\<forall>x\<in>set xs. f x = (0::real) \<Longrightarrow> sum_list (map f xs) = 0"
  by (induction xs) auto

lemma vec_norm_zero_iff: "vec_norm v = 0 \<longleftrightarrow> (\<forall>x\<in>set v. x = 0)"
proof -
  have "sum_list (map (\<lambda>x. x * x) v) = 0 \<longleftrightarrow> (\<forall>y\<in>set (map (\<lambda>x. x * x) v). y = 0)"
    by (rule sum_list_nonneg_eq_0_iff) auto
  then show ?thesis by (auto simp: vec_norm_def)
qed

lemma dot_zero_norm:
  assumes "vec_norm u = 0 \<or> vec_norm v = 0"
  shows "dot u v = 0"
proof -
  have "\<forall>p\<in>set (zip u v). (case p of (x, y) \<Rightarrow> x * y) = 0"
    using assms by (auto simp: vec_norm_zero_iff dest: set_zip_leftD set_zip_rightD)
  then show ?thesis
    unfolding dot_def by (rule sum_list_all_zero)
qed

lemma cosine_ok:
  assumes "\<forall>row\<in>set E. length row = length q"
  shows "cosine_similarities E q
         = Inr (map (\<lambda>row. np_divide (dot row q) (vec_norm row * vec_norm q)) E)"
  using assms by (simp add: cosine_similarities_def list_ex_iff)

section \<open>Facts about search\<close>

lemma build_result_sel [simp]:
  "similarity (build_result cs s i) = s ! i"
  "chunk_index (build_result cs s i) = i"
  "document (build_result cs s i) = document (cs ! i)"
  "chunk_text (build_result cs s i) = chunk_text (cs ! i)"
  "page (build_result cs s i) = page (cs ! i)"
  by (simp_all add: build_result_def chunk.extend_def result.fields_def)


lemma allowed_indices_length:
  "length (allowed_indices self F) = length (filter (\<lambda>c. document c \<in> F) (chunks self))"
proof -
  have "filter (\<lambda>c. document c \<in> F) (chunks self)
        = filter (\<lambda>c. document c \<in> F) (map (\<lambda>i. chunks self ! i) [0..<length (chunks self)])"
    by (simp add: map_nth)
  also have "\<dots> = map (\<lambda>i. chunks self ! i) (allowed_indices self F)"
    by (simp add: filter_map allowed_indices_def comp_def)
  finally show ?thesis by simp
qed

lemma allowed_indices_empty:
  "chunks self = [] \<Longrightarrow> allowed_indices self F = []"
  "allowed_indices self {} = []"
  by (simp_all add: allowed_indices_def)

text \<open>The shape of every search that returns.\<close>

lemma search_Some_shape:
  assumes "search encode self query top_k (Some F) = Inr rs"
  shows "rs = [] \<or>
         (\<exists>E sims. embeddings self = Some E \<and> cosine_similarities E (encode query) = Inr sims
            \<and> (\<forall>i\<in>set (allowed_indices self F). i < length sims)
            \<and> rs = map (build_result (chunks self) sims)
                    (map (\<lambda>j. allowed_indices self F ! j)
                       (slice_to top_k
                          (rev (argsort (map (\<lambda>i. sims ! i) (allowed_indices self F)))))))"
  using assms
  by (auto simp: search_def allowed_indices_def Let_def list_ex_iff not_le
           split: option.splits if_splits sum.splits)

lemma search_None_shape:
  assumes "search encode self query top_k None = Inr rs"
  shows "rs = [] \<or>
         (\<exists>E sims. embeddings self = Some E \<and> cosine_similarities E (encode query) = Inr sims
            \<and> rs = map (build_result (chunks self) sims) (slice_to top_k (rev (argsort sims))))"
  using assms
  by (auto simp: search_def Let_def split: option.splits if_splits sum.splits)

lemma search_docs_allowed:
  assumes "search encode self query top_k (Some F) = Inr rs"
  shows "\<forall>r\<in>set rs. document r \<in> F"
proof -
  let ?fi = "allowed_indices self F"
  have fi: "\<And>j. j < length ?fi \<Longrightarrow> document (chunks self ! (?fi ! j)) \<in> F"
    using nth_mem [of _ ?fi] by (auto simp: allowed_indices_def)
  from search_Some_shape [OF assms] show ?thesis
  proof
    assume "rs = []" then show ?thesis by simp
  next
    assume "\<exists>E sims. embeddings self = Some E \<and> cosine_similarities E (encode query) = Inr sims
            \<and> (\<forall>i\<in>set ?fi. i < length sims)
            \<and> rs = map (build_result (chunks self) sims)
                    (map (\<lambda>j. ?fi ! j)
                       (slice_to top_k (rev (argsort (map (\<lambda>i. sims ! i) ?fi)))))"
    then obtain sims where
      rs: "rs = map (build_result (chunks self) sims)
                    (map (\<lambda>j. ?fi ! j)
                       (slice_to top_k (rev (argsort (map (\<lambda>i. sims ! i) ?fi)))))"
      by blast
    have "\<And>j. j \<in> set (slice_to top_k (rev (argsort (map (\<lambda>i. sims ! i) ?fi))))
              \<Longrightarrow> j < length ?fi"
      using slice_to_set [of top_k "rev (argsort (map (\<lambda>i. sims ! i) ?fi))"]
      by (auto simp: argsort_set)
    then show ?thesis
      using fi by (auto simp: rs)
  qed
qed

lemma search_length:
  assumes "search encode self query top_k (Some F) = Inr rs" and "0 \<le> top_k"
    and "embeddings self \<noteq> None"
  shows "length rs = min (nat top_k) (length (filter (\<lambda>c. document c \<in> F) (chunks self)))"
proof -
  have eq: "filter (\<lambda>idx. document (chunks self ! idx) \<in> F) [0..<length (chunks self)]
            = allowed_indices self F"
    by (simp add: allowed_indices_def)
  show ?thesis
    using assms unfolding allowed_indices_length [symmetric]
    by (auto simp: search_def Let_def eq slice_to_length_nonneg argsort_length
                   allowed_indices_empty
             split: option.splits if_splits sum.splits)
qed

lemma search_length_le:
  assumes "search encode self query top_k (Some F) = Inr rs" and "0 \<le> top_k"
  shows "int (length rs) \<le> top_k"
  using assms
  by (auto simp: search_def Let_def slice_to_length_nonneg
           split: option.splits if_splits sum.splits)

lemma search_selects_best:
  assumes "search encode self query top_k (Some F) = Inr rs"
    and "embeddings self = Some E" and "cosine_similarities E (encode query) = Inr sims"
    and "i < length (chunks self)" and "document (chunks self ! i) \<in> F"
    and "i \<notin> chunk_index ` set rs" and "r \<in> set rs"
  shows "sims ! i \<le> similarity r"
proof -
  let ?fi = "allowed_indices self F"
  let ?fs = "map (\<lambda>i. sims ! i) ?fi"
  let ?R = "rev (argsort ?fs)"
  from assms(7) have "rs \<noteq> []" by auto
  with search_Some_shape [OF assms(1)] assms(2,3)
  have rs: "rs = map (build_result (chunks self) sims) (map (\<lambda>j. ?fi ! j) (slice_to top_k ?R))"
    by auto
  obtain n where n: "slice_to top_k ?R = take n ?R"
    using slice_to_take by blast
  have "i \<in> set ?fi" using assms(4,5) by (simp add: allowed_indices_def)
  then obtain j where j: "j < length ?fi" "?fi ! j = i"
    by (auto simp: in_set_conv_nth)
  have "j \<notin> set (take n ?R)"
    using assms(6) j(2) by (force simp: rs n image_iff)
  moreover have "j \<in> set ?R" using j(1) by (simp add: argsort_set)
  ultimately have jd: "j \<in> set (drop n ?R)"
    by (metis Un_iff append_take_drop_id set_append)
  from assms(7) obtain a where
    a: "a \<in> set (take n ?R)" "r = build_result (chunks self) sims (?fi ! a)"
    by (auto simp: rs n)
  have "a \<in> set ?R" using a(1) by (auto dest: in_set_takeD)
  then have al: "a < length ?fi" by (simp add: argsort_set)
  have "?fs ! j \<le> ?fs ! a"
    using sorted_wrt_take_drop [OF ranked_desc a(1) jd] .
  then show ?thesis using j al a(2) by simp
qed

section \<open>Facts about strings and formatting\<close>

lemma is_prefix_append: "is_prefix s (s @ t)"
  by (induction s) simp_all

lemma is_prefix_extend: "is_prefix s xs \<Longrightarrow> is_prefix s (xs @ ys)"
  by (induction s xs rule: is_prefix.induct) simp_all

lemma str_contains_Nil: "str_contains [] xs"
  by (cases xs) simp_all

lemma str_contains_append_right: "str_contains s xs \<Longrightarrow> str_contains s (xs @ ys)"
proof (induction xs)
  case Nil
  then show ?case by (simp add: str_contains_Nil)
next
  case (Cons c xs)
  then show ?case by (auto dest: is_prefix_extend)
qed

lemma str_contains_append_left: "str_contains s ys \<Longrightarrow> str_contains s (xs @ ys)"
  by (induction xs) simp_all

lemma str_contains_self: "str_contains s (s @ t)"
proof (cases "s @ t")
  case Nil
  then show ?thesis by simp
next
  case (Cons c u)
  then show ?thesis using is_prefix_append [of s t] by simp
qed

lemma str_contains_middle: "str_contains s (a @ s @ b)"
  by (rule str_contains_append_left) (rule str_contains_self)

lemma join_Cons: "join sep (x # xs) = (if xs = [] then x else x @ sep @ join sep xs)"
  by (cases xs) simp_all

lemma str_contains_join: "d \<in> set L \<Longrightarrow> str_contains d (join sep L)"
proof (induction L)
  case Nil
  then show ?case by simp
next
  case (Cons x L)
  show ?case
  proof (cases "d = x")
    case True
    then show ?thesis
      using str_contains_self [of x "[]"] str_contains_self [of x "sep @ join sep L"]
      by (simp add: join_Cons)
  next
    case False
    with Cons have "str_contains d (join sep L)" and "L \<noteq> []" by auto
    then show ?thesis
      by (simp add: join_Cons str_contains_append_left)
  qed
qed

lemmas format_defs =
  format_similarity_def format_2f_def round_half_even_def Let_def digit_char_def
  str_nat.simps

lemma format_threshold: "format_2f MIN_SIMILARITY_THRESHOLD = ''0.40''"
  by (simp add: MIN_SIMILARITY_THRESHOLD_def format_defs)

lemma sqrt_25: "sqrt 25 = 5"
  by (rule real_sqrt_unique) simp_all

section \<open>The claims about search and the conversation store\<close>

lemmas example_defs =
  search_def example_index_def example_chunks_def zero_index_def empty_index_def
  example_encode_def cosine_similarities_def np_divide_def dot_def vec_norm_def argsort_def
  slice_to_def build_result_def Let_def chunk.extend_def result.fields_def upt_rec

lemmas graded_defs =
  search_def graded_index_def example_chunks_def graded_encode_def nan_index_def
  cosine_similarities_def np_divide_def dot_def vec_norm_def argsort_def sqrt_25
  slice_to_def build_result_def Let_def chunk.extend_def result.fields_def upt_rec

lemma le_Fin_cases: "s \<le> Fin y \<Longrightarrow> \<exists>x. s = Fin x \<and> x \<le> y"
  by (cases s) simp_all

lemma graded_search_top:
  "search graded_encode graded_index ''revenue'' 1
       (Some {''company_a_earnings.pdf'', ''company_b_earnings.pdf''}) =
     Inr [\<lparr>chunk_text = ''A margin'', page = 2, chunk_id = 1,
            document = ''company_a_earnings.pdf'', similarity = Fin (4 / 5),
            chunk_index = 1\<rparr>]"
  by (simp add: graded_defs)

lemma graded_cosines:
  "cosine_similarities [[3, 4], [4, 3], [0, 1]] (graded_encode ''revenue'')
     = Inr [Fin (3 / 5), Fin (4 / 5), Fin 0]"
  by (simp add: graded_defs)

text \<open>
  Claim C1, amended. A search with a filter \<open>F\<close> that returns: every result's document is
  in \<open>F\<close>; for a non-negative \<open>top_k\<close> there are at most \<open>top_k\<close> results, and exactly
  \<open>min top_k m\<close> of them when the index has embeddings, \<open>m\<close> being the number of chunks that
  pass the filter; and every chunk that passes the filter and was not returned ranks no
  higher than each returned result, in the order numpy sorts by, where NaN ranks above
  every number. In numbers: when a returned result has a number as similarity, the
  similarity of a chunk left out is a number too, and no larger. A result with the
  similarity NaN is returned ahead of every number. So \<open>top_k\<close> cuts the ranked list of
  the filtered chunks.
\<close>

theorem search_filter_then_rank:
  assumes "search encode self query top_k (Some F) = Inr rs"
  shows "(\<forall>r\<in>set rs. document r \<in> F)
       \<and> (0 \<le> top_k \<longrightarrow> int (length rs) \<le> top_k)
       \<and> (0 \<le> top_k \<longrightarrow> embeddings self \<noteq> None \<longrightarrow>
            length rs = min (nat top_k) (length (filter (\<lambda>c. document c \<in> F) (chunks self))))
       \<and> (\<forall>E sims i r.
            embeddings self = Some E \<longrightarrow> cosine_similarities E (encode query) = Inr sims \<longrightarrow>
            i < length (chunks self) \<longrightarrow> document (chunks self ! i) \<in> F \<longrightarrow>
            i \<notin> chunk_index ` set rs \<longrightarrow> r \<in> set rs \<longrightarrow>
              sims ! i \<le> similarity r
              \<and> (\<forall>y. similarity r = Fin y \<longrightarrow> (\<exists>x. sims ! i = Fin x \<and> x \<le> y)))"
proof -
  have best: "sims ! i \<le> similarity r
              \<and> (\<forall>y. similarity r = Fin y \<longrightarrow> (\<exists>x. sims ! i = Fin x \<and> x \<le> y))"
    if "embeddings self = Some E" "cosine_similarities E (encode query) = Inr sims"
       "i < length (chunks self)" "document (chunks self ! i) \<in> F"
       "i \<notin> chunk_index ` set rs" "r \<in> set rs"
    for E sims i r
  proof -
    have le: "sims ! i \<le> similarity r"
      using search_selects_best [OF assms that] .
    then show ?thesis
      using le_Fin_cases [of "sims ! i"] by auto
  qed
  show ?thesis
    using search_docs_allowed [OF assms] search_length_le [OF assms] search_length [OF assms]
          best
    by blast
qed

theorem search_filter_then_rank_witness:
  "search graded_encode graded_index ''revenue'' 1
       (Some {''company_a_earnings.pdf'', ''company_b_earnings.pdf''}) =
     Inr [\<lparr>chunk_text = ''A margin'', page = 2, chunk_id = 1,
            document = ''company_a_earnings.pdf'', similarity = Fin (4 / 5),
            chunk_index = 1\<rparr>]
   \<and> length (filter (\<lambda>c. document c \<in> {''company_a_earnings.pdf'', ''company_b_earnings.pdf''})
               (chunks graded_index)) = 3
   \<and> cosine_similarities [[3, 4], [4, 3], [0, 1]] (graded_encode ''revenue'')
       = Inr [Fin (3 / 5), Fin (4 / 5), Fin 0]
   \<and> (\<exists>x. [Fin (3 / 5), Fin (4 / 5), Fin 0] ! 0 = Fin x \<and> x \<le> 4 / 5)
   \<and> (\<exists>x. [Fin (3 / 5), Fin (4 / 5), Fin 0] ! 2 = Fin x \<and> x \<le> 4 / 5)"
proof -
  note h = graded_search_top
  note c = graded_cosines
  have e: "embeddings graded_index = Some [[3, 4], [4, 3], [0, 1]]"
    by (simp add: graded_index_def)
  let ?r = "\<lparr>chunk_text = ''A margin'', page = 2, chunk_id = 1,
            document = ''company_a_earnings.pdf'', similarity = Fin (4 / 5),
            chunk_index = 1\<rparr>"
  from search_filter_then_rank [OF h]
  have all: "\<forall>E sims i r.
          embeddings graded_index = Some E \<longrightarrow>
          cosine_similarities E (graded_encode ''revenue'') = Inr sims \<longrightarrow>
          i < length (chunks graded_index) \<longrightarrow>
          document (chunks graded_index ! i)
            \<in> {''company_a_earnings.pdf'', ''company_b_earnings.pdf''} \<longrightarrow>
          i \<notin> chunk_index ` set [?r] \<longrightarrow> r \<in> set [?r] \<longrightarrow>
            sims ! i \<le> similarity r
            \<and> (\<forall>y. similarity r = Fin y \<longrightarrow> (\<exists>x. sims ! i = Fin x \<and> x \<le> y))"
    by blast
  have "\<forall>y. similarity ?r = Fin y \<longrightarrow> (\<exists>x. [Fin (3 / 5), Fin (4 / 5), Fin 0] ! 0 = Fin x \<and> x \<le> y)"
    using all [rule_format, OF e c, of 0 ?r]
    by (simp add: graded_index_def example_chunks_def)
  from this [rule_format, of "4 / 5"]
  have a0: "\<exists>x. [Fin (3 / 5), Fin (4 / 5), Fin 0] ! 0 = Fin x \<and> x \<le> 4 / 5"
    by simp
  have "\<forall>y. similarity ?r = Fin y \<longrightarrow> (\<exists>x. [Fin (3 / 5), Fin (4 / 5), Fin 0] ! 2 = Fin x \<and> x \<le> y)"
    using all [rule_format, OF e c, of 2 ?r]
    by (simp add: graded_index_def example_chunks_def)
  from this [rule_format, of "4 / 5"]
  have a2: "\<exists>x. [Fin (3 / 5), Fin (4 / 5), Fin 0] ! 2 = Fin x \<and> x \<le> 4 / 5"
    by simp
  have n: "length (filter (\<lambda>c. document c \<in> {''company_a_earnings.pdf'', ''company_b_earnings.pdf''})
               (chunks graded_index)) = 3"
    by (simp add: graded_index_def example_chunks_def)
  from h c a0 a2 n show ?thesis by blast
qed

text \<open>
  What the order with NaN on top means: three chunks with zero vectors fill the three
  places, and the chunk of similarity 1 is left out.
\<close>

lemma search_nan_outranks_example:
  "\<exists>rs. search example_encode nan_index ''revenue'' 3 (Some {''company_a_earnings.pdf''})
          = Inr rs
        \<and> map similarity rs = [NaN, NaN, NaN] \<and> 3 \<notin> chunk_index ` set rs
        \<and> cosine_similarities [[0, 0], [0, 0], [0, 0], [1, 0]] (example_encode ''revenue'')
            = Inr [NaN, NaN, NaN, Fin 1]"
  by (simp add: graded_defs example_encode_def)

text \<open>
  Claim C1 as stated fails for a negative \<open>top_k\<close>: the slice \<open>[:-1]\<close> drops the last
  element only, so two results come back for \<open>top_k = -1\<close>.
\<close>

theorem search_top_k_counterexample:
  "search graded_encode graded_index ''revenue'' (- 1)
       (Some {''company_a_earnings.pdf'', ''company_b_earnings.pdf''}) =
     Inr [\<lparr>chunk_text = ''A margin'', page = 2, chunk_id = 1,
            document = ''company_a_earnings.pdf'', similarity = Fin (4 / 5),
            chunk_index = 1\<rparr>,
          \<lparr>chunk_text = ''A revenue'', page = 1, chunk_id = 0,
            document = ''company_a_earnings.pdf'', similarity = Fin (3 / 5),
            chunk_index = 0\<rparr>]
   \<and> \<not> int (length
            [\<lparr>chunk_text = ''A margin'', page = 2, chunk_id = 1,
               document = ''company_a_earnings.pdf'', similarity = Fin (4 / 5),
               chunk_index = 1\<rparr>,
             \<lparr>chunk_text = ''A revenue'', page = 1, chunk_id = 0,
               document = ''company_a_earnings.pdf'', similarity = Fin (3 / 5),
               chunk_index = 0\<rparr>])
        \<le> - 1"
  by (simp add: graded_defs)

text \<open>
  Claim C3. A search on an index without chunks returns the empty list, and so does a
  search with the empty set as filter, whatever the index holds; neither is an error.
\<close>

theorem search_empty:
  "(chunks self = [] \<longrightarrow> search encode self query top_k allowed_documents = Inr [])
   \<and> search encode self query top_k (Some {}) = Inr []"
  by (simp add: search_def split: option.splits)

theorem search_empty_witness:
  "chunks empty_index = []
   \<and> search example_encode empty_index ''revenue'' 3 None = Inr []
   \<and> chunks example_index \<noteq> []
   \<and> search example_encode example_index ''revenue'' 3 (Some {}) = Inr []"
  using search_empty [of empty_index example_encode "''revenue''" 3 None]
        search_empty [of example_index example_encode "''revenue''" 3 None]
  by (simp add: empty_index_def example_index_def example_chunks_def)

text \<open>
  Claim C6, amended. The results of a search that returns are in descending order of
  similarity, in the order numpy sorts by (NaN above every number). Nothing is said
  about the order of equal similarities.
\<close>

theorem search_sorted_descending:
  assumes "search encode self query top_k allowed_documents = Inr rs"
  shows "sorted_wrt (\<lambda>r s. similarity s \<le> similarity r) rs"
proof (cases allowed_documents)
  case None
  with search_None_shape assms
  have "rs = [] \<or> (\<exists>sims. rs = map (build_result (chunks self) sims)
                               (slice_to top_k (rev (argsort sims))))"
    by blast
  then show ?thesis
  proof
    assume "rs = []" then show ?thesis by simp
  next
    assume "\<exists>sims. rs = map (build_result (chunks self) sims)
                           (slice_to top_k (rev (argsort sims)))"
    then obtain sims where
      rs: "rs = map (build_result (chunks self) sims) (slice_to top_k (rev (argsort sims)))"
      by blast
    show ?thesis
      using slice_to_sorted_wrt [OF ranked_desc [of sims], of top_k]
      by (simp add: rs sorted_wrt_map)
  qed
next
  case (Some F)
  let ?fi = "allowed_indices self F"
  from search_Some_shape assms Some
  have "rs = [] \<or> (\<exists>sims. rs = map (build_result (chunks self) sims)
                    (map (\<lambda>j. ?fi ! j)
                       (slice_to top_k (rev (argsort (map (\<lambda>i. sims ! i) ?fi))))))"
    by blast
  then show ?thesis
  proof
    assume "rs = []" then show ?thesis by simp
  next
    assume "\<exists>sims. rs = map (build_result (chunks self) sims)
                    (map (\<lambda>j. ?fi ! j)
                       (slice_to top_k (rev (argsort (map (\<lambda>i. sims ! i) ?fi)))))"
    then obtain sims where rs: "rs = map (build_result (chunks self) sims)
                    (map (\<lambda>j. ?fi ! j)
                       (slice_to top_k (rev (argsort (map (\<lambda>i. sims ! i) ?fi)))))"
      by blast
    let ?fs = "map (\<lambda>i. sims ! i) ?fi"
    let ?js = "slice_to top_k (rev (argsort ?fs))"
    have sw: "sorted_wrt (\<lambda>i j. ?fs ! j \<le> ?fs ! i) ?js"
      using slice_to_sorted_wrt [OF ranked_desc] .
    have bound: "\<And>j. j \<in> set ?js \<Longrightarrow> j < length ?fi"
      using slice_to_set [of top_k "rev (argsort ?fs)"] by (auto simp: argsort_set)
    have "sorted_wrt (\<lambda>i j. sims ! (?fi ! j) \<le> sims ! (?fi ! i)) ?js"
      by (rule sorted_wrt_mono_rel [OF _ sw]) (use bound in auto)
    then show ?thesis
      by (simp add: rs sorted_wrt_map)
  qed
qed

lemma graded_search_all:
  "search graded_encode graded_index ''revenue'' 3 None =
     Inr [\<lparr>chunk_text = ''A margin'', page = 2, chunk_id = 1,
            document = ''company_a_earnings.pdf'', similarity = Fin (4 / 5),
            chunk_index = 1\<rparr>,
          \<lparr>chunk_text = ''A revenue'', page = 1, chunk_id = 0,
            document = ''company_a_earnings.pdf'', similarity = Fin (3 / 5),
            chunk_index = 0\<rparr>,
          \<lparr>chunk_text = ''B revenue'', page = 1, chunk_id = 0,
            document = ''company_b_earnings.pdf'', similarity = Fin 0,
            chunk_index = 2\<rparr>]"
  by (simp add: graded_defs)

theorem search_sorted_descending_witness:
  "search graded_encode graded_index ''revenue'' 3 None =
     Inr [\<lparr>chunk_text = ''A margin'', page = 2, chunk_id = 1,
            document = ''company_a_earnings.pdf'', similarity = Fin (4 / 5),
            chunk_index = 1\<rparr>,
          \<lparr>chunk_text = ''A revenue'', page = 1, chunk_id = 0,
            document = ''company_a_earnings.pdf'', similarity = Fin (3 / 5),
            chunk_index = 0\<rparr>,
          \<lparr>chunk_text = ''B revenue'', page = 1, chunk_id = 0,
            document = ''company_b_earnings.pdf'', similarity = Fin 0,
            chunk_index = 2\<rparr>]
   \<and> sorted_wrt (\<lambda>r s. similarity s \<le> similarity r)
        [\<lparr>chunk_text = ''A margin'', page = 2, chunk_id = 1,
            document = ''company_a_earnings.pdf'', similarity = Fin (4 / 5),
            chunk_index = 1\<rparr>,
          \<lparr>chunk_text = ''A revenue'', page = 1, chunk_id = 0,
            document = ''company_a_earnings.pdf'', similarity = Fin (3 / 5),
            chunk_index = 0\<rparr>,
          \<lparr>chunk_text = ''B revenue'', page = 1, chunk_id = 0,
            document = ''company_b_earnings.pdf'', similarity = Fin 0,
            chunk_index = 2\<rparr>]"
  using graded_search_all search_sorted_descending [OF graded_search_all]
  by blast

text \<open>
  Claim C6 as stated fails on ties: the two chunks of the first document are equally
  similar to the query, and the one inserted later (index_object 1) is ranked first.
\<close>

theorem search_tie_order_counterexample:
  "search example_encode example_index ''revenue'' 2 None =
     Inr [\<lparr>chunk_text = ''A margin'', page = 2, chunk_id = 1,
            document = ''company_a_earnings.pdf'', similarity = Fin 1, chunk_index = 1\<rparr>,
          \<lparr>chunk_text = ''A revenue'', page = 1, chunk_id = 0,
            document = ''company_a_earnings.pdf'', similarity = Fin 1, chunk_index = 0\<rparr>]"
  by (simp add: example_defs)




text \<open>
  Claim C9. After \<open>clear_conversation\<close> for a user, \<open>build_context_string\<close> for that user
  is the empty string for every \<open>max_entries\<close>; and clearing a user who has no entry in
  the table changes nothing.
\<close>

theorem clear_then_context_empty:
  "build_context_string (clear_conversation self user_email) user_email max_entries = []
   \<and> (user_email \<notin> dom (conversations self) \<longrightarrow> clear_conversation self user_email = self)"
  by (auto simp: build_context_string_def clear_conversation_def get_conversation_history_def
           split: option.splits)

theorem clear_then_context_empty_witness:
  "build_context_string example_manager ''alice@email.com'' 3 \<noteq> []
   \<and> build_context_string (clear_conversation example_manager ''alice@email.com'')
        ''alice@email.com'' 3 = []
   \<and> ''bob@email.com'' \<notin> dom (conversations example_manager)
   \<and> clear_conversation example_manager ''bob@email.com'' = example_manager"
proof -
  have d: "''bob@email.com'' \<notin> dom (conversations example_manager)"
    by (simp add: example_manager_def)
  have n: "build_context_string example_manager ''alice@email.com'' 3 \<noteq> []"
    by (simp add: example_manager_def build_context_string_def get_conversation_history_def
                  slice_last_def)
  from clear_then_context_empty [of example_manager "''alice@email.com''" 3]
       clear_then_context_empty [of example_manager "''bob@email.com''" 3] d n
  show ?thesis by blast
qed

text \<open>
  The result of a call is what \<open>search\<close> computes from the index with the model in use:
  the one in the global, or the pretrained one when the global is still empty.
\<close>

lemma search_call_result:
  "fst (search_call pretrained query top_k allowed_documents w) =
     search (case embedding_model w of None \<Rightarrow> pretrained | Some model \<Rightarrow> model)
       (index_object w) query top_k allowed_documents"
  by (simp add: search_call_def search_def read_chunks_def read_embeddings_def
        get_embedding_model_def Let_def
      split: option.splits sum.splits)

lemma search_call_index:
  "index_object (snd (search_call pretrained query top_k allowed_documents w))
     = index_object w"
  by (simp add: search_call_def read_chunks_def read_embeddings_def
        get_embedding_model_def Let_def
      split: option.splits sum.splits)

lemma search_call_model:
  "(case embedding_model (snd (search_call pretrained query top_k allowed_documents w)) of
      None \<Rightarrow> pretrained | Some model \<Rightarrow> model)
   = (case embedding_model w of None \<Rightarrow> pretrained | Some model \<Rightarrow> model)"
  by (simp add: search_call_def read_chunks_def read_embeddings_def
        get_embedding_model_def Let_def
      split: option.splits sum.splits)

text \<open>
  Claim C10. A call of \<open>search\<close> leaves the index as it was (chunks, embeddings and
  document map), whatever it does to the rest of the process state: the only thing it
  may write is the global that holds the embedding model. A second call with the same
  arguments, made in the state the first one left, returns the same result.
\<close>

theorem search_pure_read:
  "index_object (snd (search_call pretrained query top_k allowed_documents w))
     = index_object w
   \<and> chunks (index_object (snd (search_call pretrained query top_k allowed_documents w)))
       = chunks (index_object w)
   \<and> embeddings (index_object (snd (search_call pretrained query top_k allowed_documents w)))
       = embeddings (index_object w)
   \<and> document_map
       (index_object (snd (search_call pretrained query top_k allowed_documents w)))
       = document_map (index_object w)
   \<and> fst (search_call pretrained query top_k allowed_documents
            (snd (search_call pretrained query top_k allowed_documents w)))
       = fst (search_call pretrained query top_k allowed_documents w)"
  by (simp add: search_call_result search_call_index search_call_model)

theorem search_pure_read_witness:
  "embedding_model example_world = None
   \<and> embedding_model (snd (search_call graded_encode ''revenue'' 3 None example_world))
       = Some graded_encode
   \<and> index_object (snd (search_call graded_encode ''revenue'' 3 None example_world)) = graded_index
   \<and> fst (search_call graded_encode ''revenue'' 3 None example_world) =
       Inr [\<lparr>chunk_text = ''A margin'', page = 2, chunk_id = 1,
              document = ''company_a_earnings.pdf'', similarity = Fin (4 / 5),
              chunk_index = 1\<rparr>,
            \<lparr>chunk_text = ''A revenue'', page = 1, chunk_id = 0,
              document = ''company_a_earnings.pdf'', similarity = Fin (3 / 5),
              chunk_index = 0\<rparr>,
            \<lparr>chunk_text = ''B revenue'', page = 1, chunk_id = 0,
              document = ''company_b_earnings.pdf'', similarity = Fin 0,
              chunk_index = 2\<rparr>]
   \<and> fst (search_call graded_encode ''revenue'' 3 None
            (snd (search_call graded_encode ''revenue'' 3 None example_world)))
       = fst (search_call graded_encode ''revenue'' 3 None example_world)"
proof -
  have ne: "chunks graded_index \<noteq> []" "embeddings graded_index \<noteq> None"
    by (simp_all add: graded_index_def example_chunks_def)
  have m: "embedding_model (snd (search_call graded_encode ''revenue'' 3 None example_world))
           = Some graded_encode"
    using ne
    by (auto simp: search_call_def read_chunks_def read_embeddings_def
          get_embedding_model_def example_world_def Let_def cosine_similarities_def
          graded_index_def graded_encode_def
        split: option.splits sum.splits)
  have r: "fst (search_call graded_encode ''revenue'' 3 None example_world)
           = search graded_encode graded_index ''revenue'' 3 None"
    by (simp add: search_call_result example_world_def)
  have i: "index_object example_world = graded_index" "embedding_model example_world = None"
    by (simp_all add: example_world_def)
  from search_pure_read [of graded_encode "''revenue''" 3 None example_world] m r i
       graded_search_all
  show ?thesis by simp
qed

section \<open>Facts about answer_query\<close>

lemma add_filename_patterns_id [simp]:
  "add_filename_patterns query_lower company_mapping_initial = company_mapping_initial"
  by (simp add: add_filename_patterns_def company_mapping_initial_def Let_def)

lemma mentioned_companies_eq:
  "mentioned_companies query =
     filter (\<lambda>(company_name, doc_name). str_contains company_name (lower query))
       company_mapping_initial"
  by (simp add: mentioned_companies_def Let_def)

lemma unauthorized_mentions_set:
  "set (unauthorized_mentions allowed_docs query) =
     {upper company_name | company_name doc_name.
        (company_name, doc_name) \<in> set company_mapping_initial
        \<and> str_contains company_name (lower query) \<and> doc_name \<notin> allowed_docs}"
  by (force simp: unauthorized_mentions_def mentioned_companies_eq)

lemma short_circuit_iff:
  "(mentioned_companies query \<noteq> [] \<and> unauthorized_mentions allowed_docs query \<noteq> [])
   = (unauthorized_mentions allowed_docs query \<noteq> [])"
  by (auto simp: unauthorized_mentions_def)

lemma answer_query_not_refused:
  assumes "unauthorized_mentions (get_allowed_documents_set user_email) query = []"
    and "fuse_context (conversation_manager self) user_email query use_context = (eq, fu)"
    and "retrieve encode (document_index self) (get_allowed_documents_set user_email)
           query eq fu = Inr (rs, cu)"
    and "build_answer (set_order (get_allowed_documents_set user_email))
           (get_allowed_documents_set user_email) rs = (ans, srcs)"
  shows "answer_query encode set_order self user_email query use_context =
           Inr (\<lparr>answer = ans, sources = srcs, context_used = cu\<rparr>,
                self\<lparr>conversation_manager :=
                       add_to_conversation (conversation_manager self) user_email query ans
                         (join ''; '' (map src_document srcs))\<rparr>)"
  using assms by (simp add: answer_query_def Let_def)

lemma answer_query_returns:
  assumes "answer_query encode set_order self user_email query use_context = Inr (resp, self')"
    and "unauthorized_mentions (get_allowed_documents_set user_email) query = []"
  shows "\<exists>rs. retrieve encode (document_index self) (get_allowed_documents_set user_email)
                query
                (fst (fuse_context (conversation_manager self) user_email query use_context))
                (snd (fuse_context (conversation_manager self) user_email query use_context))
              = Inr (rs, context_used resp)
           \<and> (answer resp, sources resp)
               = build_answer (set_order (get_allowed_documents_set user_email))
                   (get_allowed_documents_set user_email) rs
           \<and> self' = self\<lparr>conversation_manager :=
                        add_to_conversation (conversation_manager self) user_email query
                          (answer resp) (join ''; '' (map src_document (sources resp)))\<rparr>"
  using assms
  by (auto simp: answer_query_def Let_def split: sum.splits prod.splits)

lemma retrieve_from_search:
  assumes "retrieve encode index allowed_docs query eq fu = Inr (rs, cu)"
  shows "search encode index eq 3 (Some allowed_docs) = Inr rs
         \<or> search encode index query 3 (Some allowed_docs) = Inr rs"
  using assms by (auto simp: retrieve_def split: sum.splits if_splits)

lemma retrieve_results:
  assumes "retrieve encode index allowed_docs query eq fu = Inr (rs, cu)"
  shows "(\<forall>r\<in>set rs. document r \<in> allowed_docs) \<and> length rs \<le> 3"
  using retrieve_from_search [OF assms] search_docs_allowed [of encode index _ 3 allowed_docs rs]
        search_length_le [of encode index _ 3 allowed_docs rs]
  by auto

lemma build_answer_on_results:
  assumes "\<forall>r\<in>set rs. document r \<in> allowed_docs" and "length rs \<le> 3"
  shows "build_answer allowed_listing allowed_docs rs =
           (let kept = filter (\<lambda>r. meets_threshold (similarity r)) rs in
            if rs = [] then (no_results_answer, [])
            else if kept = [] then (threshold_answer allowed_listing, [])
            else (let ans = join (newline @ newline) (map chunk_text kept)
                  in if 1000 < length ans then take 1000 ans @ ''...'' else ans,
                  map source_of kept))"
proof -
  have f: "filter (\<lambda>r. document r \<in> allowed_docs) rs = rs"
    using assms(1) by (simp add: filter_id_conv)
  have "length (filter (\<lambda>r. meets_threshold (similarity r)) rs) \<le> 3"
    using assms(2) length_filter_le [of "\<lambda>r. meets_threshold (similarity r)" rs] by linarith
  then have t: "take 3 (filter (\<lambda>r. meets_threshold (similarity r)) rs)
                = filter (\<lambda>r. meets_threshold (similarity r)) rs"
    by simp
  show ?thesis
    by (simp add: build_answer_def Let_def f t)
qed







lemma search_total:
  assumes "embeddings self = None \<or>
           (\<exists>E. embeddings self = Some E \<and> length E = length (chunks self)
                \<and> (\<forall>row\<in>set E. length row = length (encode query)))"
  shows "\<exists>rs. search encode self query top_k allowed_documents = Inr rs"
  using assms
proof
  assume "embeddings self = None"
  then show ?thesis by (simp add: search_def)
next
  assume "\<exists>E. embeddings self = Some E \<and> length E = length (chunks self)
                \<and> (\<forall>row\<in>set E. length row = length (encode query))"
  then obtain E where E: "embeddings self = Some E" and len: "length E = length (chunks self)"
    and dims: "\<forall>row\<in>set E. length row = length (encode query)"
    by blast
  note cos = cosine_ok [OF dims]
  show ?thesis
  proof (cases allowed_documents)
    case None
    have "\<not> list_ex (\<lambda>idx. length (chunks self) \<le> idx)
             (slice_to top_k (rev (argsort
                (map (\<lambda>row. np_divide (dot row (encode query))
                               (vec_norm row * vec_norm (encode query))) E))))"
      using slice_to_set [of top_k "rev (argsort
                (map (\<lambda>row. np_divide (dot row (encode query))
                               (vec_norm row * vec_norm (encode query))) E))"] len
      by (auto simp: list_ex_iff argsort_set)
    then show ?thesis
      by (simp add: search_def E cos None Let_def)
  next
    case (Some F)
    have "\<not> list_ex (\<lambda>idx. length E \<le> idx)
             (filter (\<lambda>idx. document (chunks self ! idx) \<in> F) [0..<length (chunks self)])"
      using len by (auto simp: list_ex_iff)
    then show ?thesis
      by (simp add: search_def E cos Some Let_def)
  qed
qed

lemma answer_query_total:
  assumes "embeddings (document_index self) = None \<or>
           (\<exists>E. embeddings (document_index self) = Some E
                \<and> length E = length (chunks (document_index self))
                \<and> (\<forall>q. \<forall>row\<in>set E. length row = length (encode q)))"
  shows "\<exists>resp self'. answer_query encode set_order self user_email query use_context
                        = Inr (resp, self')"
proof -
  have s: "\<And>q. \<exists>rs. search encode (document_index self) q 3
                         (Some (get_allowed_documents_set user_email)) = Inr rs"
    by (rule search_total) (use assms in blast)
  have r: "\<And>eq fu. \<exists>rs cu. retrieve encode (document_index self)
                  (get_allowed_documents_set user_email) query eq fu = Inr (rs, cu)"
  proof -
    fix eq fu
    from s [of eq] obtain rs1 where 1: "search encode (document_index self) eq 3
                         (Some (get_allowed_documents_set user_email)) = Inr rs1" by blast
    from s [of query] obtain rs2 where 2: "search encode (document_index self) query 3
                         (Some (get_allowed_documents_set user_email)) = Inr rs2" by blast
    show "\<exists>rs cu. retrieve encode (document_index self)
                  (get_allowed_documents_set user_email) query eq fu = Inr (rs, cu)"
      by (cases "rs1 = [] \<and> fu") (auto simp: retrieve_def 1 2)
  qed
  show ?thesis
  proof (cases "unauthorized_mentions (get_allowed_documents_set user_email) query = []")
    case True
    obtain eq fu where f: "fuse_context (conversation_manager self) user_email query use_context
                           = (eq, fu)"
      by (cases "fuse_context (conversation_manager self) user_email query use_context")
    from r [of eq fu] obtain rs cu where
      p: "retrieve encode (document_index self) (get_allowed_documents_set user_email)
            query eq fu = Inr (rs, cu)"
      by blast
    from answer_query_not_refused
           [where set_order = set_order, OF True f p prod.collapse [symmetric]]
    show ?thesis by blast
  next
    case False
    then show ?thesis
      by (simp add: answer_query_def short_circuit_iff Let_def)
  qed
qed



lemma refusal_answer_names:
  "m \<in> set mentions \<Longrightarrow> str_contains m (refusal_answer mentions allowed_listing)"
  unfolding refusal_answer_def
  by (intro str_contains_append_left str_contains_append_right str_contains_join)

lemma refusal_answer_lists:
  "d \<in> set allowed_listing \<Longrightarrow> str_contains d (refusal_answer mentions allowed_listing)"
  unfolding refusal_answer_def
  by (intro str_contains_append_left str_contains_append_right str_contains_join)

lemma threshold_answer_lists:
  "d \<in> set allowed_listing \<Longrightarrow> str_contains d (threshold_answer allowed_listing)"
  unfolding threshold_answer_def
  by (intro str_contains_append_left str_contains_append_right str_contains_join)

lemma threshold_answer_states_threshold:
  "str_contains ''0.40'' (threshold_answer allowed_listing)"
  unfolding threshold_answer_def format_threshold
  by (rule str_contains_append_left, rule str_contains_append_left,
      rule str_contains_append_left, rule str_contains_self)

section \<open>The example states evaluated\<close>

lemma allowed_examples:
  "get_allowed_documents_set ''alice@email.com'' = {''company_a_earnings.pdf''}"
  "get_allowed_documents_set ''bob@email.com''
     = {''company_b_earnings.pdf'', ''company_c_earnings.pdf''}"
  "get_allowed_documents_set ''charlie@email.com''
     = {''company_d_earnings.pdf'', ''company_e_earnings.pdf''}"
  "get_allowed_documents_set ''test2@email.com''
     = {''company_a_earnings.pdf'', ''company_b_earnings.pdf''}"
  by (simp_all add: get_allowed_documents_set_def get_user_documents_def
        USER_DOCUMENT_ACCESS_def)

lemma set_order_examples:
  "example_set_order {''company_a_earnings.pdf''} = [''company_a_earnings.pdf'']"
  "example_set_order {''company_b_earnings.pdf'', ''company_c_earnings.pdf''}
     = [''company_b_earnings.pdf'', ''company_c_earnings.pdf'']"
  "reverse_set_order {''company_b_earnings.pdf'', ''company_c_earnings.pdf''}
     = [''company_c_earnings.pdf'', ''company_b_earnings.pdf'']"
  "example_set_order {''company_d_earnings.pdf'', ''company_e_earnings.pdf''}
     = [''company_d_earnings.pdf'', ''company_e_earnings.pdf'']"
  "example_set_order {''company_a_earnings.pdf'', ''company_b_earnings.pdf''}
     = [''company_a_earnings.pdf'', ''company_b_earnings.pdf'']"
  "reverse_set_order {''company_a_earnings.pdf'', ''company_b_earnings.pdf''}
     = [''company_b_earnings.pdf'', ''company_a_earnings.pdf'']"
  by (simp_all add: example_set_order_def reverse_set_order_def)

lemma lower_examples:
  "lower ''revenue'' = ''revenue''"
  "lower ''weather'' = ''weather''"
  "lower ''What about Company A?'' = ''what about company a?''"
  "upper ''company a'' = ''COMPANY A''"
  "lower ''What about Company B?'' = ''what about company b?''"
  "upper ''company b'' = ''COMPANY B''"
  by (simp_all add: lower_def lower_char_def upper_def upper_char_def Let_def char_of_def
        bit_Suc_0_iff)

lemma no_mentions_examples:
  "unauthorized_mentions A ''revenue'' = []"
  "unauthorized_mentions A ''weather'' = []"
  by (simp_all add: unauthorized_mentions_def mentioned_companies_eq lower_examples
        company_mapping_initial_def)

lemma mentions_company_a:
  "unauthorized_mentions {''company_b_earnings.pdf'', ''company_c_earnings.pdf''}
     ''What about Company A?'' = [''COMPANY A'']"
  by (simp add: unauthorized_mentions_def mentioned_companies_eq lower_examples
        company_mapping_initial_def)

lemma mentions_company_b:
  "unauthorized_mentions {''company_a_earnings.pdf''} ''What about Company B?''
     = [''COMPANY B'']"
  by (simp add: unauthorized_mentions_def mentioned_companies_eq lower_examples
        company_mapping_initial_def)

lemma format_examples:
  "format_similarity (Fin (4 / 5)) = ''0.80''"
  "format_similarity (Fin (3 / 5)) = ''0.60''"
  by (simp_all add: format_defs)

lemma search_nothing_two_dims:
  "length (encode q) = 2 \<Longrightarrow>
   search encode graded_index q 3
     (Some {''company_d_earnings.pdf'', ''company_e_earnings.pdf''}) = Inr []"
  by (simp add: search_def graded_index_def example_chunks_def cosine_similarities_def
        Let_def upt_rec)


lemma search_weather_test2:
  "search graded_encode graded_index ''weather'' 3
     (Some {''company_a_earnings.pdf'', ''company_b_earnings.pdf''}) =
     Inr [\<lparr>chunk_text = ''B revenue'', page = 1, chunk_id = 0,
            document = ''company_b_earnings.pdf'', similarity = Fin 0,
            chunk_index = 2\<rparr>,
          \<lparr>chunk_text = ''A revenue'', page = 1, chunk_id = 0,
            document = ''company_a_earnings.pdf'', similarity = Fin (- (3 / 5)),
            chunk_index = 0\<rparr>,
          \<lparr>chunk_text = ''A margin'', page = 2, chunk_id = 1,
            document = ''company_a_earnings.pdf'', similarity = Fin (- (4 / 5)),
            chunk_index = 1\<rparr>]"
  by (simp add: graded_defs)

lemma search_revenue_alice:
  "search graded_encode graded_index ''revenue'' 3 (Some {''company_a_earnings.pdf''}) =
     Inr [\<lparr>chunk_text = ''A margin'', page = 2, chunk_id = 1,
            document = ''company_a_earnings.pdf'', similarity = Fin (4 / 5),
            chunk_index = 1\<rparr>,
          \<lparr>chunk_text = ''A revenue'', page = 1, chunk_id = 0,
            document = ''company_a_earnings.pdf'', similarity = Fin (3 / 5),
            chunk_index = 0\<rparr>]"
  by (simp add: graded_defs)

lemma threshold_answer_text:
  "threshold_answer allowed_listing =
     ''I couldn't find highly relevant information in the documents you have access to (''
       @ join '', '' allowed_listing
       @ ''). The search results didn't meet the relevance threshold (minimum similarity: 0.40). Please try rephrasing your question or asking about topics that might be in your accessible documents.''"
  by (simp add: threshold_answer_def format_threshold)

lemma answer_weather_test2:
  "answer_query graded_encode example_set_order example_qa ''test2@email.com'' ''weather''
     True =
     Inr (\<lparr>answer = threshold_answer [''company_a_earnings.pdf'', ''company_b_earnings.pdf''],
            sources = [], context_used = False\<rparr>,
          \<lparr>document_index = graded_index,
            conversation_manager =
              \<lparr>conversations =
                 [''test2@email.com'' \<mapsto>
                    [\<lparr>turn_query = ''weather'',
                       turn_answer =
                         threshold_answer
                           [''company_a_earnings.pdf'', ''company_b_earnings.pdf''],
                       turn_context = []\<rparr>]]\<rparr>\<rparr>)"
  by (simp add: answer_query_def no_mentions_examples allowed_examples set_order_examples
        Let_def example_qa_def fuse_context_def build_context_string_def
        get_conversation_history_def retrieve_def search_weather_test2 build_answer_def
        meets_threshold_def MIN_SIMILARITY_THRESHOLD_def add_to_conversation_def)

lemma answer_revenue_alice:
  "answer_query graded_encode example_set_order example_qa ''alice@email.com'' ''revenue''
     True =
     Inr (\<lparr>answer = ''A margin'' @ newline @ newline @ ''A revenue'',
            sources = [\<lparr>src_document = ''company_a_earnings.pdf'', src_page = 2,
                         src_similarity = ''0.80''\<rparr>,
                       \<lparr>src_document = ''company_a_earnings.pdf'', src_page = 1,
                         src_similarity = ''0.60''\<rparr>],
            context_used = False\<rparr>,
          \<lparr>document_index = graded_index,
            conversation_manager =
              \<lparr>conversations =
                 [''alice@email.com'' \<mapsto>
                    [\<lparr>turn_query = ''revenue'',
                       turn_answer = ''A margin'' @ newline @ newline @ ''A revenue'',
                       turn_context =
                         ''company_a_earnings.pdf; company_a_earnings.pdf''\<rparr>]]\<rparr>\<rparr>)"
  by (simp add: answer_query_def no_mentions_examples allowed_examples set_order_examples
        Let_def example_qa_def fuse_context_def build_context_string_def
        get_conversation_history_def retrieve_def search_revenue_alice build_answer_def
        meets_threshold_def MIN_SIMILARITY_THRESHOLD_def add_to_conversation_def
        source_of_def format_examples newline_def)

lemma answer_revenue_charlie:
  "answer_query graded_encode example_set_order example_qa ''charlie@email.com'' ''revenue''
     True =
     Inr (\<lparr>answer = no_results_answer, sources = [], context_used = False\<rparr>,
          \<lparr>document_index = graded_index,
            conversation_manager =
              \<lparr>conversations =
                 [''charlie@email.com'' \<mapsto>
                    [\<lparr>turn_query = ''revenue'', turn_answer = no_results_answer,
                       turn_context = []\<rparr>]]\<rparr>\<rparr>)"
proof -
  have s: "search graded_encode graded_index ''revenue'' 3
             (Some {''company_d_earnings.pdf'', ''company_e_earnings.pdf''}) = Inr []"
    by (rule search_nothing_two_dims) (simp add: graded_encode_def)
  show ?thesis
    by (simp add: answer_query_def no_mentions_examples allowed_examples set_order_examples
          Let_def example_qa_def fuse_context_def build_context_string_def
          get_conversation_history_def retrieve_def s build_answer_def
          add_to_conversation_def)
qed

lemma no_results_answer_plain:
  "\<not> str_contains ''0.40'' no_results_answer
   \<and> \<not> str_contains ''company_d_earnings.pdf'' no_results_answer
   \<and> \<not> str_contains ''company_e_earnings.pdf'' no_results_answer"
  by (simp add: no_results_answer_def)


section \<open>The claims about answer_query\<close>

text \<open>
  Claim C2. When the lowercased query contains a key of the company table whose document
  is not among the user's allowed documents, \<open>answer_query\<close> returns at once, whatever
  the index holds and whatever \<open>use_context\<close> is. The answer is the refusal text written
  out below: it names every unauthorized mention (the upper-cased keys found in the
  query whose document is not allowed, this one among them) and lists every document of
  the user, in whatever order the set is iterated. The sources are empty, \<open>context_used\<close>
  is false, and the state is the one before the call.
\<close>

theorem unauthorized_mention_refused:
  assumes "(company_name, doc_name) \<in> set company_mapping_initial"
    and "str_contains company_name (lower query)"
    and "doc_name \<notin> get_allowed_documents_set user_email"
    and "set (set_order (get_allowed_documents_set user_email))
           = get_allowed_documents_set user_email"
  shows "\<exists>ans.
           answer_query encode set_order self user_email query use_context =
             Inr (\<lparr>answer = ans, sources = [], context_used = False\<rparr>, self)
         \<and> ans =
             ''I don't have access to information about ''
               @ join '', ''
                   (unauthorized_mentions (get_allowed_documents_set user_email) query)
               @ ''. I can only search within the documents you have access to: ''
               @ join '', '' (set_order (get_allowed_documents_set user_email))
               @ ''. Please ask questions about the companies I have access to.''
         \<and> set (unauthorized_mentions (get_allowed_documents_set user_email) query) =
             {upper n | n d. (n, d) \<in> set company_mapping_initial
                \<and> str_contains n (lower query)
                \<and> d \<notin> get_allowed_documents_set user_email}
         \<and> str_contains (upper company_name) ans
         \<and> (\<forall>m\<in>set (unauthorized_mentions (get_allowed_documents_set user_email) query).
               str_contains m ans)
         \<and> (\<forall>d\<in>get_allowed_documents_set user_email. str_contains d ans)"
proof -
  let ?A = "get_allowed_documents_set user_email"
  let ?M = "unauthorized_mentions ?A query"
  let ?ans = "refusal_answer ?M (set_order ?A)"
  have m: "upper company_name \<in> set ?M"
    unfolding unauthorized_mentions_set using assms(1-3) by blast
  then have ne: "?M \<noteq> []" by auto
  have q: "answer_query encode set_order self user_email query use_context =
             Inr (\<lparr>answer = ?ans, sources = [], context_used = False\<rparr>, self)"
    using ne by (simp add: answer_query_def short_circuit_iff Let_def)
  have t: "?ans =
             ''I don't have access to information about '' @ join '', '' ?M
               @ ''. I can only search within the documents you have access to: ''
               @ join '', '' (set_order ?A)
               @ ''. Please ask questions about the companies I have access to.''"
    by (simp add: refusal_answer_def)
  have n: "\<forall>m\<in>set ?M. str_contains m ?ans"
    by (simp add: refusal_answer_names)
  have l: "\<forall>d\<in>?A. str_contains d ?ans"
    using assms(4) refusal_answer_lists [of _ "set_order ?A" ?M] by auto
  from q t m n l unauthorized_mentions_set [of ?A query] show ?thesis
    by (intro exI [of _ ?ans]) auto
qed

theorem unauthorized_mention_refused_witness:
  "(''company a'', ''company_a_earnings.pdf'') \<in> set company_mapping_initial
   \<and> str_contains ''company a'' (lower ''What about Company A?'')
   \<and> ''company_a_earnings.pdf'' \<notin> get_allowed_documents_set ''bob@email.com''
   \<and> set (example_set_order (get_allowed_documents_set ''bob@email.com''))
       = get_allowed_documents_set ''bob@email.com''
   \<and> set (reverse_set_order (get_allowed_documents_set ''bob@email.com''))
       = get_allowed_documents_set ''bob@email.com''
   \<and> answer_query example_encode example_set_order example_qa ''bob@email.com''
         ''What about Company A?'' True
       = Inr (\<lparr>answer = ''I don't have access to information about COMPANY A. I can only search within the documents you have access to: company_b_earnings.pdf, company_c_earnings.pdf. Please ask questions about the companies I have access to.'',
                sources = [], context_used = False\<rparr>, example_qa)
   \<and> answer_query example_encode reverse_set_order example_qa ''bob@email.com''
         ''What about Company A?'' False
       = Inr (\<lparr>answer = ''I don't have access to information about COMPANY A. I can only search within the documents you have access to: company_c_earnings.pdf, company_b_earnings.pdf. Please ask questions about the companies I have access to.'',
                sources = [], context_used = False\<rparr>, example_qa)"
proof -
  have h1: "(''company a'', ''company_a_earnings.pdf'') \<in> set company_mapping_initial"
    by (simp add: company_mapping_initial_def)
  have h2: "str_contains ''company a'' (lower ''What about Company A?'')"
    by (simp add: lower_examples)
  have h3: "''company_a_earnings.pdf'' \<notin> get_allowed_documents_set ''bob@email.com''"
    by (simp add: allowed_examples)
  have h4: "set (example_set_order (get_allowed_documents_set ''bob@email.com''))
              = get_allowed_documents_set ''bob@email.com''"
    by (simp add: allowed_examples set_order_examples)
  have h5: "set (reverse_set_order (get_allowed_documents_set ''bob@email.com''))
              = get_allowed_documents_set ''bob@email.com''"
    by (auto simp: allowed_examples set_order_examples)
  from unauthorized_mention_refused
         [where set_order = example_set_order and encode = example_encode
            and self = example_qa and use_context = True, OF h1 h2 h3 h4]
  have a: "answer_query example_encode example_set_order example_qa ''bob@email.com''
         ''What about Company A?'' True
       = Inr (\<lparr>answer = ''I don't have access to information about COMPANY A. I can only search within the documents you have access to: company_b_earnings.pdf, company_c_earnings.pdf. Please ask questions about the companies I have access to.'',
                sources = [], context_used = False\<rparr>, example_qa)"
    by (auto simp: allowed_examples set_order_examples mentions_company_a)
  from unauthorized_mention_refused
         [where set_order = reverse_set_order and encode = example_encode
            and self = example_qa and use_context = False, OF h1 h2 h3 h5]
  have b: "answer_query example_encode reverse_set_order example_qa ''bob@email.com''
         ''What about Company A?'' False
       = Inr (\<lparr>answer = ''I don't have access to information about COMPANY A. I can only search within the documents you have access to: company_c_earnings.pdf, company_b_earnings.pdf. Please ask questions about the companies I have access to.'',
                sources = [], context_used = False\<rparr>, example_qa)"
    by (auto simp: allowed_examples set_order_examples mentions_company_a)
  from h1 h2 h3 h4 h5 a b show ?thesis by blast
qed

text \<open>
  Claim C4, amended. In a call that is not refused and returns, the sources are exactly
  the retrieved results whose similarity is at least 0.40 (NaN is not), each with its
  document, page and similarity in two decimals. When nothing was retrieved, the answer
  is the plain message of the no-results branch, written out below. When results were
  retrieved and none reaches the threshold, the answer is the message written out below:
  it states the threshold as \<open>0.40\<close> and lists every document of the user, in whatever
  order the set is iterated. Otherwise the answer is the text of the surviving results,
  joined by blank lines and cut at 1000 characters.
\<close>

theorem threshold_applied:
  assumes "answer_query encode set_order self user_email query use_context
             = Inr (resp, self')"
    and "unauthorized_mentions (get_allowed_documents_set user_email) query = []"
    and "set (set_order (get_allowed_documents_set user_email))
           = get_allowed_documents_set user_email"
  shows "\<exists>rs. retrieve encode (document_index self) (get_allowed_documents_set user_email)
                query
                (fst (fuse_context (conversation_manager self) user_email query use_context))
                (snd (fuse_context (conversation_manager self) user_email query use_context))
              = Inr (rs, context_used resp)
           \<and> sources resp
               = map (\<lambda>r. \<lparr>src_document = document r, src_page = page r,
                             src_similarity = format_similarity (similarity r)\<rparr>)
                   (filter (\<lambda>r. meets_threshold (similarity r)) rs)
           \<and> (rs = [] \<longrightarrow>
                answer resp =
                  ''I couldn't find relevant information in the documents you have access to. Please try rephrasing your question.'')
           \<and> (rs \<noteq> [] \<and> filter (\<lambda>r. meets_threshold (similarity r)) rs = [] \<longrightarrow>
                answer resp =
                  ''I couldn't find highly relevant information in the documents you have access to (''
                    @ join '', '' (set_order (get_allowed_documents_set user_email))
                    @ ''). The search results didn't meet the relevance threshold (minimum similarity: 0.40). Please try rephrasing your question or asking about topics that might be in your accessible documents.''
                \<and> str_contains ''0.40'' (answer resp)
                \<and> (\<forall>d\<in>get_allowed_documents_set user_email.
                      str_contains d (answer resp)))
           \<and> (filter (\<lambda>r. meets_threshold (similarity r)) rs \<noteq> [] \<longrightarrow>
                answer resp =
                  (let ans = join (newline @ newline)
                               (map chunk_text
                                  (filter (\<lambda>r. meets_threshold (similarity r)) rs))
                   in if 1000 < length ans then take 1000 ans @ ''...'' else ans))
           \<and> (\<forall>x. meets_threshold (Fin x) = (0.40 \<le> x)) \<and> \<not> meets_threshold NaN"
proof -
  let ?A = "get_allowed_documents_set user_email"
  let ?kept = "\<lambda>rs. filter (\<lambda>r. meets_threshold (similarity r)) rs"
  from answer_query_returns [OF assms(1,2)] obtain rs where
    r: "retrieve encode (document_index self) ?A query
          (fst (fuse_context (conversation_manager self) user_email query use_context))
          (snd (fuse_context (conversation_manager self) user_email query use_context))
        = Inr (rs, context_used resp)"
    and b: "(answer resp, sources resp) = build_answer (set_order ?A) ?A rs"
    by blast
  from retrieve_results [OF r] have ok: "\<forall>r\<in>set rs. document r \<in> ?A"
    and le: "length rs \<le> 3" by blast+
  note e = b [unfolded build_answer_on_results [OF ok le]]
  have m: "(\<forall>x. meets_threshold (Fin x) = (0.40 \<le> x)) \<and> \<not> meets_threshold NaN"
    by (simp add: meets_threshold_def MIN_SIMILARITY_THRESHOLD_def)
  have s: "sources resp
             = map (\<lambda>r. \<lparr>src_document = document r, src_page = page r,
                           src_similarity = format_similarity (similarity r)\<rparr>) (?kept rs)"
    using e by (auto simp: Let_def source_of_def split: if_splits)
  have n: "rs = [] \<longrightarrow>
             answer resp =
               ''I couldn't find relevant information in the documents you have access to. Please try rephrasing your question.''"
    using e by (auto simp: Let_def no_results_answer_def split: if_splits)
  have t0: "rs \<noteq> [] \<and> ?kept rs = [] \<longrightarrow> answer resp = threshold_answer (set_order ?A)"
    using e by (auto simp: Let_def split: if_splits)
  have t: "rs \<noteq> [] \<and> ?kept rs = [] \<longrightarrow>
             answer resp =
               ''I couldn't find highly relevant information in the documents you have access to (''
                 @ join '', '' (set_order ?A)
                 @ ''). The search results didn't meet the relevance threshold (minimum similarity: 0.40). Please try rephrasing your question or asking about topics that might be in your accessible documents.''
             \<and> str_contains ''0.40'' (answer resp)
             \<and> (\<forall>d\<in>?A. str_contains d (answer resp))"
  proof
    assume c: "rs \<noteq> [] \<and> ?kept rs = []"
    with t0 have a: "answer resp = threshold_answer (set_order ?A)" by blast
    have "\<forall>d\<in>?A. str_contains d (threshold_answer (set_order ?A))"
      using assms(3) threshold_answer_lists [of _ "set_order ?A"] by auto
    then show "answer resp =
               ''I couldn't find highly relevant information in the documents you have access to (''
                 @ join '', '' (set_order ?A)
                 @ ''). The search results didn't meet the relevance threshold (minimum similarity: 0.40). Please try rephrasing your question or asking about topics that might be in your accessible documents.''
             \<and> str_contains ''0.40'' (answer resp)
             \<and> (\<forall>d\<in>?A. str_contains d (answer resp))"
      unfolding a
      using threshold_answer_text [of "set_order ?A"]
            threshold_answer_states_threshold [of "set_order ?A"]
      by blast
  qed
  have j: "?kept rs \<noteq> [] \<longrightarrow>
             answer resp =
               (let ans = join (newline @ newline) (map chunk_text (?kept rs))
                in if 1000 < length ans then take 1000 ans @ ''...'' else ans)"
    using e by (auto simp: Let_def split: if_splits)
  from r s n t j m show ?thesis by blast
qed

theorem threshold_applied_witness:
  "answer_query graded_encode example_set_order example_qa ''test2@email.com'' ''weather''
     True =
     Inr (\<lparr>answer = ''I couldn't find highly relevant information in the documents you have access to (company_a_earnings.pdf, company_b_earnings.pdf). The search results didn't meet the relevance threshold (minimum similarity: 0.40). Please try rephrasing your question or asking about topics that might be in your accessible documents.'',
            sources = [], context_used = False\<rparr>,
          \<lparr>document_index = graded_index,
            conversation_manager =
              \<lparr>conversations =
                 [''test2@email.com'' \<mapsto>
                    [\<lparr>turn_query = ''weather'',
                       turn_answer = ''I couldn't find highly relevant information in the documents you have access to (company_a_earnings.pdf, company_b_earnings.pdf). The search results didn't meet the relevance threshold (minimum similarity: 0.40). Please try rephrasing your question or asking about topics that might be in your accessible documents.'',
                       turn_context = []\<rparr>]]\<rparr>\<rparr>)
   \<and> unauthorized_mentions (get_allowed_documents_set ''test2@email.com'') ''weather'' = []
   \<and> set (example_set_order (get_allowed_documents_set ''test2@email.com''))
       = get_allowed_documents_set ''test2@email.com''
   \<and> \<not> meets_threshold (Fin 0) \<and> \<not> meets_threshold (Fin (- (3 / 5)))
   \<and> meets_threshold (Fin 0.40) \<and> \<not> meets_threshold NaN"
proof -
  have h1: "answer_query graded_encode example_set_order example_qa ''test2@email.com''
              ''weather'' True =
     Inr (\<lparr>answer = ''I couldn't find highly relevant information in the documents you have access to (company_a_earnings.pdf, company_b_earnings.pdf). The search results didn't meet the relevance threshold (minimum similarity: 0.40). Please try rephrasing your question or asking about topics that might be in your accessible documents.'',
            sources = [], context_used = False\<rparr>,
          \<lparr>document_index = graded_index,
            conversation_manager =
              \<lparr>conversations =
                 [''test2@email.com'' \<mapsto>
                    [\<lparr>turn_query = ''weather'',
                       turn_answer = ''I couldn't find highly relevant information in the documents you have access to (company_a_earnings.pdf, company_b_earnings.pdf). The search results didn't meet the relevance threshold (minimum similarity: 0.40). Please try rephrasing your question or asking about topics that might be in your accessible documents.'',
                       turn_context = []\<rparr>]]\<rparr>\<rparr>)"
    using answer_weather_test2 by (simp add: threshold_answer_text)
  have h2: "unauthorized_mentions (get_allowed_documents_set ''test2@email.com'') ''weather''
              = []"
    by (rule no_mentions_examples)
  have h3: "set (example_set_order (get_allowed_documents_set ''test2@email.com''))
              = get_allowed_documents_set ''test2@email.com''"
    by (simp add: allowed_examples set_order_examples)
  from threshold_applied [OF h1 h2 h3]
  have "(\<forall>x. meets_threshold (Fin x) = (0.40 \<le> x)) \<and> \<not> meets_threshold NaN"
    by blast
  then have "\<not> meets_threshold (Fin 0) \<and> \<not> meets_threshold (Fin (- (3 / 5)))
             \<and> meets_threshold (Fin 0.40) \<and> \<not> meets_threshold NaN"
    by simp
  with h1 h2 h3 show ?thesis by blast
qed

text \<open>
  Claim C4 as stated fails in the no-results branch: the index has no chunk of this user's
  documents, and the answer neither states the threshold nor lists the documents.
\<close>

theorem no_results_answer_counterexample:
  "answer_query graded_encode example_set_order example_qa ''charlie@email.com'' ''revenue''
     True =
     Inr (\<lparr>answer = no_results_answer, sources = [], context_used = False\<rparr>,
          \<lparr>document_index = graded_index,
            conversation_manager =
              \<lparr>conversations =
                 [''charlie@email.com'' \<mapsto>
                    [\<lparr>turn_query = ''revenue'', turn_answer = no_results_answer,
                       turn_context = []\<rparr>]]\<rparr>\<rparr>)
   \<and> no_results_answer =
       ''I couldn't find relevant information in the documents you have access to. Please try rephrasing your question.''
   \<and> \<not> str_contains ''0.40'' no_results_answer
   \<and> \<not> str_contains ''company_d_earnings.pdf'' no_results_answer
   \<and> \<not> str_contains ''company_e_earnings.pdf'' no_results_answer"
  using answer_revenue_charlie no_results_answer_plain no_results_answer_def by blast





text \<open>
  Claim C8. A call that returns leaves the document index alone. If it was refused for an
  unauthorized mention, the whole state is unchanged; otherwise the user's history is
  the old one plus one turn, made of the query, the answer returned and the source
  documents joined by \<open>; \<close>, and no other user's history changes.
\<close>

theorem turn_recorded:
  assumes "answer_query encode set_order self user_email query use_context
             = Inr (resp, self')"
  shows "document_index self' = document_index self
       \<and> (if unauthorized_mentions (get_allowed_documents_set user_email) query \<noteq> []
          then self' = self
          else conversations (conversation_manager self') =
                 (conversations (conversation_manager self))
                   (user_email \<mapsto>
                      get_conversation_history (conversation_manager self) user_email
                        @ [\<lparr>turn_query = query, turn_answer = answer resp,
                             turn_context = join ''; '' (map src_document (sources resp))\<rparr>]))"
proof (cases "unauthorized_mentions (get_allowed_documents_set user_email) query = []")
  case True
  from answer_query_returns [OF assms True]
  have s: "self' = self\<lparr>conversation_manager :=
                        add_to_conversation (conversation_manager self) user_email query
                          (answer resp) (join ''; '' (map src_document (sources resp)))\<rparr>"
    by blast
  show ?thesis
    using True
    by (auto simp: s add_to_conversation_def get_conversation_history_def Let_def
             split: option.splits)
next
  case False
  then show ?thesis
    using assms by (simp add: answer_query_def short_circuit_iff Let_def)
qed

theorem turn_recorded_witness:
  "answer_query graded_encode example_set_order example_qa ''alice@email.com'' ''revenue''
     True =
     Inr (\<lparr>answer = ''A margin'' @ newline @ newline @ ''A revenue'',
            sources = [\<lparr>src_document = ''company_a_earnings.pdf'', src_page = 2,
                         src_similarity = ''0.80''\<rparr>,
                       \<lparr>src_document = ''company_a_earnings.pdf'', src_page = 1,
                         src_similarity = ''0.60''\<rparr>],
            context_used = False\<rparr>,
          \<lparr>document_index = graded_index,
            conversation_manager =
              \<lparr>conversations =
                 [''alice@email.com'' \<mapsto>
                    [\<lparr>turn_query = ''revenue'',
                       turn_answer = ''A margin'' @ newline @ newline @ ''A revenue'',
                       turn_context =
                         ''company_a_earnings.pdf; company_a_earnings.pdf''\<rparr>]]\<rparr>\<rparr>)
   \<and> conversations (conversation_manager example_qa) ''alice@email.com'' = None
   \<and> unauthorized_mentions (get_allowed_documents_set ''alice@email.com'') ''revenue'' = []
   \<and> unauthorized_mentions (get_allowed_documents_set ''alice@email.com'')
         ''What about Company B?'' \<noteq> []"
proof -
  note h = answer_revenue_alice
  have n: "conversations (conversation_manager example_qa) ''alice@email.com'' = None"
    by (simp add: example_qa_def)
  have u: "unauthorized_mentions (get_allowed_documents_set ''alice@email.com'') ''revenue'' = []"
    by (rule no_mentions_examples)
  have v: "unauthorized_mentions (get_allowed_documents_set ''alice@email.com'')
             ''What about Company B?'' \<noteq> []"
    by (simp add: allowed_examples mentions_company_b)
  from turn_recorded [OF h] h n u v show ?thesis
    by blast
qed

end
